theory Spec2Isabelle
  imports Complex_Main "HOL-Library.Multiset"
begin

section \<open>The JavaScript runtime\<close>

text \<open>
  Numbers are JavaScript doubles in the source. A finite double is a real number, and an
  arithmetic operation returns the exact result rounded to a double. The rounding is a
  parameter of the model: any function whose result is within the relative error
  \<open>2\<^sup>-\<^sup>5\<^sup>2\<close> of its argument, which round-to-nearest is (with room for the one unit
  in the last place that \<open>Math.pow\<close> and \<open>Math.exp\<close> may be off by). Loss of precision
  near zero (underflow) is outside the model.
\<close>

typedef rounding = "{f :: real \<Rightarrow> real. \<forall>x. \<bar>f x - x\<bar> \<le> \<bar>x\<bar> / 2 ^ 52}"
  morphisms apply_rounding Abs_rounding
  by (rule exI [of _ "\<lambda>x. x"]) simp

text \<open>
  The runtime facilities the code calls are parameters of the model. Every call of
  \<open>Math.random()\<close> or \<open>Date.now()\<close> takes the next index of one call counter, which
  the functions thread through (they take the counter and return the new one); the
  record below gives the value each call returns. Counts (array lengths, tick numbers)
  are naturals.
\<close>

record js_runtime =
  math_random :: "nat \<Rightarrow> real"
  date_now :: "nat \<Rightarrow> real"
  number_toString :: "nat \<Rightarrow> real \<Rightarrow> string"
  regex_test :: "string \<Rightarrow> bool \<Rightarrow> string \<Rightarrow> bool"
  json_stringify :: "(string \<times> string) list \<Rightarrow> string"
  string_trim :: "string \<Rightarrow> string"
  string_toLowerCase :: "string \<Rightarrow> string"
  double_rounding :: rounding
  library_rounding :: rounding

text \<open>
  \<open>number_toString rt radix x\<close> is \<open>x.toString(radix)\<close>;
  \<open>regex_test rt src i s\<close> is \<open>new RegExp(src, i ? 'i' : '').test(s)\<close>;
  \<open>json_stringify rt h\<close> is \<open>JSON.stringify(h)\<close> for a headers object;
  \<open>string_trim rt s\<close> is \<open>s.trim()\<close> and \<open>string_toLowerCase rt s\<close> is
  \<open>s.toLowerCase()\<close>.

  \<open>fl rt x\<close> is the double an arithmetic operation with the exact result \<open>x\<close>
  returns, and the double a decimal literal \<open>x\<close> of the source denotes;
  \<open>fl_lib rt x\<close> is the double \<open>Math.pow\<close> or \<open>Math.exp\<close> returns where the
  exact value is \<open>x\<close> (the library need not return the nearest double, so it has a
  rounding of its own). The arithmetic that decides
  what happens to a request or to an instance goes through it: load ratios, thresholds,
  CPU credits, drop probabilities, latencies, scaling, the traffic volume and the draws of
  the generator. Integers, halves and the like are doubles as they stand. The accounting
  formulas (costs, the metrics of a service and of the game state, the attributes of a
  request) are kept in exact arithmetic.
\<close>

definition fl :: "js_runtime \<Rightarrow> real \<Rightarrow> real" where
  "fl rt x = apply_rounding (double_rounding rt) x"

definition fl_lib :: "js_runtime \<Rightarrow> real \<Rightarrow> real" where
  "fl_lib rt x = apply_rounding (library_rounding rt) x"

text \<open>
  Where the source can leave the finite doubles the value is one of these: a finite
  number, \<open>Infinity\<close>, \<open>-Infinity\<close> or \<open>NaN\<close>. A result whose rounding reaches
  \<open>2\<^sup>1\<^sup>0\<^sup>2\<^sup>4\<close> overflows to an infinity. The traffic volume is computed in these
  numbers. Elsewhere the model covers the runs whose numbers stay finite. A load ratio is
  \<open>Infinity\<close> or \<open>NaN\<close> in the source when the capacity is 0, or so near 0 that the
  division overflows: the theorems that depend on the quotient assume that it is finite
  (\<open>finite_quotient\<close> below).
\<close>

datatype jsnum = Num real | PosInfinity | NegInfinity | NaN

definition overflow :: "real \<Rightarrow> jsnum" where
  "overflow y =
     (if y \<ge> 2 ^ 1024 then PosInfinity else if y \<le> - (2 ^ 1024) then NegInfinity else Num y)"

definition to_double :: "js_runtime \<Rightarrow> real \<Rightarrow> jsnum" where
  "to_double rt x = overflow (fl rt x)"


text \<open>The product of two numbers: an infinity times zero is \<open>NaN\<close>.\<close>

fun js_mul :: "js_runtime \<Rightarrow> jsnum \<Rightarrow> jsnum \<Rightarrow> jsnum" where
  "js_mul rt NaN b = NaN"
| "js_mul rt a NaN = NaN"
| "js_mul rt (Num x) (Num y) = to_double rt (x * y)"
| "js_mul rt (Num x) PosInfinity =
     (if x = 0 then NaN else if x > 0 then PosInfinity else NegInfinity)"
| "js_mul rt (Num x) NegInfinity =
     (if x = 0 then NaN else if x > 0 then NegInfinity else PosInfinity)"
| "js_mul rt PosInfinity (Num y) =
     (if y = 0 then NaN else if y > 0 then PosInfinity else NegInfinity)"
| "js_mul rt NegInfinity (Num y) =
     (if y = 0 then NaN else if y > 0 then NegInfinity else PosInfinity)"
| "js_mul rt PosInfinity PosInfinity = PosInfinity"
| "js_mul rt PosInfinity NegInfinity = NegInfinity"
| "js_mul rt NegInfinity PosInfinity = NegInfinity"
| "js_mul rt NegInfinity NegInfinity = PosInfinity"

text \<open>\<open>Math.pow(b, n)\<close> for a count \<open>n\<close>.\<close>

definition js_pow :: "js_runtime \<Rightarrow> jsnum \<Rightarrow> nat \<Rightarrow> jsnum" where
  "js_pow rt b n =
     (if n = 0 then Num 1
      else case b of
        Num x \<Rightarrow> overflow (fl_lib rt (x ^ n))
      | PosInfinity \<Rightarrow> PosInfinity
      | NegInfinity \<Rightarrow> (if odd n then NegInfinity else PosInfinity)
      | NaN \<Rightarrow> NaN)"

text \<open>\<open>Math.round\<close> is \<open>\<lfloor>x + 1/2\<rfloor>\<close>, which is \<^const>\<open>round\<close>.\<close>

fun js_round :: "jsnum \<Rightarrow> jsnum" where
  "js_round (Num x) = Num (real_of_int (round x))"
| "js_round v = v"

text \<open>\<open>Math.max\<close> of two numbers: \<open>NaN\<close> when either is \<open>NaN\<close>.\<close>

fun js_max :: "jsnum \<Rightarrow> jsnum \<Rightarrow> jsnum" where
  "js_max NaN b = NaN"
| "js_max a NaN = NaN"
| "js_max PosInfinity b = PosInfinity"
| "js_max a PosInfinity = PosInfinity"
| "js_max NegInfinity b = b"
| "js_max a NegInfinity = a"
| "js_max (Num x) (Num y) = Num (max x y)"

text \<open>
  How many of \<open>i = 0, 1, 2, \<dots>\<close> satisfy \<open>i < c\<close>, the iterations of a counting
  loop: none for \<open>NaN\<close>, no bound (\<open>None\<close>) for \<open>Infinity\<close>.
\<close>

fun loop_count :: "jsnum \<Rightarrow> nat option" where
  "loop_count (Num x) = Some (nat \<lceil>x\<rceil>)"
| "loop_count PosInfinity = None"
| "loop_count NegInfinity = Some 0"
| "loop_count NaN = Some 0"

subsection \<open>Strings and arrays\<close>

definition startsWith :: "string \<Rightarrow> string \<Rightarrow> bool" where
  "startsWith s t = (take (length t) s = t)"

definition endsWith :: "string \<Rightarrow> string \<Rightarrow> bool" where
  "endsWith s t = (length t \<le> length s \<and> drop (length s - length t) s = t)"

fun str_includes :: "string \<Rightarrow> string \<Rightarrow> bool" where
  "str_includes [] t = (t = [])"
| "str_includes (c # cs) t = (startsWith (c # cs) t \<or> str_includes cs t)"

text \<open>
  A \<open>trim\<close> and a \<open>toLowerCase\<close> for strings of 8-bit characters (Latin-1), which
  the concrete runtime below uses: the white space and the line terminators of the
  language below \<open>U+0100\<close>, and the letters with a lower case there.
\<close>

definition is_space :: "char \<Rightarrow> bool" where
  "is_space c = (c = CHR '' '' \<or> c = CHR 0x09 \<or> c = CHR 0x0A \<or> c = CHR 0x0B
     \<or> c = CHR 0x0C \<or> c = CHR 0x0D \<or> c = CHR 0xA0)"

definition latin1_trim :: "string \<Rightarrow> string" where
  "latin1_trim s = rev (dropWhile is_space (rev (dropWhile is_space s)))"

definition latin1_upper :: "char list" where
  "latin1_upper =
     ''ABCDEFGHIJKLMNOPQRSTUVWXYZ''
     @ [CHR 0xC0, CHR 0xC1, CHR 0xC2, CHR 0xC3, CHR 0xC4, CHR 0xC5, CHR 0xC6, CHR 0xC7,
        CHR 0xC8, CHR 0xC9, CHR 0xCA, CHR 0xCB, CHR 0xCC, CHR 0xCD, CHR 0xCE, CHR 0xCF,
        CHR 0xD0, CHR 0xD1, CHR 0xD2, CHR 0xD3, CHR 0xD4, CHR 0xD5, CHR 0xD6,
        CHR 0xD8, CHR 0xD9, CHR 0xDA, CHR 0xDB, CHR 0xDC, CHR 0xDD, CHR 0xDE]"

definition latin1_lower :: "char list" where
  "latin1_lower =
     ''abcdefghijklmnopqrstuvwxyz''
     @ [CHR 0xE0, CHR 0xE1, CHR 0xE2, CHR 0xE3, CHR 0xE4, CHR 0xE5, CHR 0xE6, CHR 0xE7,
        CHR 0xE8, CHR 0xE9, CHR 0xEA, CHR 0xEB, CHR 0xEC, CHR 0xED, CHR 0xEE, CHR 0xEF,
        CHR 0xF0, CHR 0xF1, CHR 0xF2, CHR 0xF3, CHR 0xF4, CHR 0xF5, CHR 0xF6,
        CHR 0xF8, CHR 0xF9, CHR 0xFA, CHR 0xFB, CHR 0xFC, CHR 0xFD, CHR 0xFE]"

definition latin1_toLowerCase :: "string \<Rightarrow> string" where
  "latin1_toLowerCase s =
     map (\<lambda>c. case map_of (zip latin1_upper latin1_lower) c of Some l \<Rightarrow> l | None \<Rightarrow> c) s"

text \<open>\<open>Array.prototype.join\<close> with a one-character separator.\<close>

fun join :: "char \<Rightarrow> string list \<Rightarrow> string" where
  "join sep [] = []"
| "join sep [s] = s"
| "join sep (s # t # ss) = s @ sep # join sep (t # ss)"

text \<open>\<open>s.substring(0, s.lastIndexOf(c))\<close>: empty when \<open>c\<close> does not occur.\<close>

fun upto_last :: "char \<Rightarrow> string \<Rightarrow> string" where
  "upto_last c [] = []"
| "upto_last c (x # xs) = (if c \<in> set xs then x # upto_last c xs else [])"

text \<open>
  A JavaScript \<open>Map\<close> keeps its keys in insertion order: an association list with
  distinct keys. \<open>set\<close> on a key already present replaces the value in place.
\<close>

fun map_set :: "'k \<Rightarrow> 'v \<Rightarrow> ('k \<times> 'v) list \<Rightarrow> ('k \<times> 'v) list" where
  "map_set k v [] = [(k, v)]"
| "map_set k v ((k', v') # m) = (if k' = k then (k, v) # m else (k', v') # map_set k v m)"

definition map_get :: "('k \<times> 'v) list \<Rightarrow> 'k \<Rightarrow> 'v option" where
  "map_get m k = map_of m k"

definition map_delete :: "'k \<Rightarrow> ('k \<times> 'v) list \<Rightarrow> ('k \<times> 'v) list" where
  "map_delete k m = filter (\<lambda>kv. fst kv \<noteq> k) m"

text \<open>\<open>a || b\<close> on an optional number, an optional string and an optional flag.\<close>

definition or_num :: "real option \<Rightarrow> real \<Rightarrow> real" where
  "or_num a b = (case a of None \<Rightarrow> b | Some x \<Rightarrow> if x = 0 then b else x)"

definition or_str :: "string option \<Rightarrow> string \<Rightarrow> string" where
  "or_str a b = (case a of None \<Rightarrow> b | Some s \<Rightarrow> if s = [] then b else s)"

definition or_flag :: "bool option \<Rightarrow> bool \<Rightarrow> bool" where
  "or_flag a b = (case a of None \<Rightarrow> b | Some x \<Rightarrow> x \<or> b)"


section \<open>Requests (traffic/request.js)\<close>

record matched_rule =
  ruleId :: string
  ruleName :: string
  mr_action :: string

text \<open>
  The fields of a \<open>Request\<close>, then the properties the services attach to it
  (\<open>service\<close>, \<open>instanceType\<close>, \<open>wafAction\<close>, \<open>matchedRules\<close>, the two
  \<open>requires\<close> flags), then the properties the firewall reads and the generator never
  sets (\<open>None\<close> is \<open>undefined\<close>).
\<close>

record request =
  req_id :: string
  req_type :: string
  req_source :: string
  timestamp :: real
  path :: string
  is_processed :: bool
  is_dropped :: bool
  is_blocked :: bool
  latency :: real
  req_provider :: "string option"
  latencyTolerance :: real
  req_value :: real
  req_size :: real
  req_service :: "string option"
  req_instanceType :: "string option"
  wafAction :: "string option"
  matchedRules :: "matched_rule list option"
  requiresCaptcha :: bool
  requiresChallenge :: bool
  queryString :: "string option"
  userAgent :: "string option"
  headers :: "(string \<times> string) list option"
  body :: "string option"
  clientIp :: "string option"
  sourceIp :: "string option"
  geoCountry :: "string option"
  http_method :: "string option"

definition substr :: "nat \<Rightarrow> nat \<Rightarrow> string \<Rightarrow> string" where
  "substr start len s = take len (drop start s)"

definition request_generateId :: "js_runtime \<Rightarrow> nat \<Rightarrow> string \<times> nat" where
  "request_generateId rt k =
     (''req-'' @ number_toString rt 10 (date_now rt k) @ ''-''
        @ substr 2 6 (number_toString rt 36 (math_random rt (k + 1))), k + 2)"

definition calculateLatencyTolerance :: "js_runtime \<Rightarrow> string \<Rightarrow> nat \<Rightarrow> real \<times> nat" where
  "calculateLatencyTolerance rt ty k =
     (if ty = ''user'' then (math_random rt k * 2000 + 1000, k + 1)
      else if ty = ''bot'' then (math_random rt k * 5000 + 5000, k + 1)
      else if ty = ''attack'' then (math_random rt k * 100 + 50, k + 1)
      else (2000, k))"

definition calculateValue :: "js_runtime \<Rightarrow> string \<Rightarrow> string \<Rightarrow> nat \<Rightarrow> real \<times> nat" where
  "calculateValue rt ty src k =
     (if ty = ''user'' then
        (if src = ''organic'' then (math_random rt k * 10 + 5, k + 1)
         else if src = ''campaign'' then (math_random rt k * 8 + 3, k + 1)
         else (math_random rt k * 5 + 2, k + 1))
      else if ty = ''bot'' then (math_random rt k * 2 + 0.5, k + 1)
      else if ty = ''attack'' then (- (math_random rt k * 5 + 1), k + 1)
      else (1, k))"

definition calculateSize :: "js_runtime \<Rightarrow> string \<Rightarrow> nat \<Rightarrow> real \<times> nat" where
  "calculateSize rt ty k =
     (if ty = ''user'' then (math_random rt k * 50 + 10, k + 1)
      else if ty = ''bot'' then (math_random rt k * 20 + 5, k + 1)
      else if ty = ''attack'' then (math_random rt k * 100 + 200, k + 1)
      else (20, k))"

text \<open>\<open>new Request(type, source)\<close>.\<close>

definition Request_new :: "js_runtime \<Rightarrow> string \<Rightarrow> string \<Rightarrow> nat \<Rightarrow> request \<times> nat" where
  "Request_new rt ty src k =
     (let (i, k1) = request_generateId rt k;
          ts = date_now rt k1;
          (tol, k2) = calculateLatencyTolerance rt ty (k1 + 1);
          (v, k3) = calculateValue rt ty src k2;
          (sz, k4) = calculateSize rt ty k3
      in (\<lparr> req_id = i, req_type = ty, req_source = src, timestamp = ts, path = ''/'',
            is_processed = False, is_dropped = False, is_blocked = False, latency = 0,
            req_provider = None, latencyTolerance = tol, req_value = v, req_size = sz,
            req_service = None, req_instanceType = None, wafAction = None,
            matchedRules = None, requiresCaptcha = False, requiresChallenge = False,
            queryString = None, userAgent = None, headers = None, body = None,
            clientIp = None, sourceIp = None, geoCountry = None, http_method = None \<rparr>, k4))"

section \<open>The base service (infra/baseService.js)\<close>

datatype health = healthy | degraded | failed

record service_metrics =
  requestsPerSecond :: real
  sm_averageLatency :: real
  errorRate :: real
  cost :: real
  uptime :: real

record base_service =
  svc_id :: string
  svc_name :: string
  provider :: string
  capacity :: real
  baseCost :: real
  currentLoad :: real
  health :: health
  svc_metrics :: service_metrics
  connections :: "string list"
  position :: "real \<times> real"
  latencyBase :: real
  latencyMultiplier :: real
  degradationThreshold :: real
  failureThreshold :: real

text \<open>What \<open>processRequests\<close> returns; \<open>blocked\<close> is empty where the source has no such key.\<close>

record service_result =
  processed :: "request list"
  dropped :: "request list"
  blocked :: "request list"

definition initial_service_metrics :: service_metrics where
  "initial_service_metrics =
     \<lparr> requestsPerSecond = 0, sm_averageLatency = 0, errorRate = 0, cost = 0, uptime = 100 \<rparr>"

definition service_generateId :: "js_runtime \<Rightarrow> nat \<Rightarrow> string \<times> nat" where
  "service_generateId rt k =
     (number_toString rt 10 (date_now rt k) @ ''-''
        @ substr 2 9 (number_toString rt 36 (math_random rt (k + 1))), k + 2)"

text \<open>\<open>new BaseService(name, provider, capacity, baseCost)\<close>.\<close>

definition BaseService_new ::
  "js_runtime \<Rightarrow> string \<Rightarrow> string \<Rightarrow> real \<Rightarrow> real \<Rightarrow> nat \<Rightarrow> base_service \<times> nat" where
  "BaseService_new rt nm prov cap bc k =
     (let (i, k1) = service_generateId rt k
      in (\<lparr> svc_id = i, svc_name = nm, provider = prov, capacity = cap, baseCost = bc,
            currentLoad = 0, health = healthy, svc_metrics = initial_service_metrics,
            connections = [], position = (0, 0), latencyBase = 10, latencyMultiplier = 1.0,
            degradationThreshold = fl rt 0.8, failureThreshold = fl rt 1.2 \<rparr>, k1))"

definition calculateLatency :: "js_runtime \<Rightarrow> 'a base_service_scheme \<Rightarrow> real \<Rightarrow> int" where
  "calculateLatency rt s loadRatio =
     round (fl rt (latencyBase s
                   * fl rt (1 + fl_lib rt ((fl rt (loadRatio * latencyMultiplier s)) ^ 2))))"

definition shouldDropRequest ::
  "js_runtime \<Rightarrow> 'a base_service_scheme \<Rightarrow> real \<Rightarrow> nat \<Rightarrow> bool \<times> nat" where
  "shouldDropRequest rt s loadRatio k =
     (if health s = failed then (True, k)
      else if loadRatio > failureThreshold s then
        (math_random rt k
           < fl rt (fl rt (loadRatio - failureThreshold s) / failureThreshold s), k + 1)
      else (False, k))"

definition BaseService_updateHealth ::
  "real \<Rightarrow> 'a base_service_scheme \<Rightarrow> 'a base_service_scheme" where
  "BaseService_updateHealth loadRatio s =
     (if loadRatio > failureThreshold s then s\<lparr>health := failed\<rparr>
      else if loadRatio > degradationThreshold s then s\<lparr>health := degraded\<rparr>
      else s\<lparr>health := healthy\<rparr>)"

definition BaseService_getCost :: "'a base_service_scheme \<Rightarrow> real" where
  "BaseService_getCost s =
     (if currentLoad s > 0.5 then baseCost s * (1 + (currentLoad s - 0.5)) else baseCost s)"

text \<open>
  \<open>updateMetrics\<close> calls \<open>this.getCost()\<close>, which the subclasses override: the cost
  function is a parameter, and it reads the metrics already updated above it.
\<close>

definition updateMetrics ::
  "('a base_service_scheme \<Rightarrow> real) \<Rightarrow> nat \<Rightarrow> nat \<Rightarrow> real \<Rightarrow>
   'a base_service_scheme \<Rightarrow> 'a base_service_scheme" where
  "updateMetrics getCost processedCount droppedCount totalLat s =
     (let totalRequests = processedCount + droppedCount;
          m1 = (svc_metrics s)\<lparr>
                 requestsPerSecond := real totalRequests,
                 errorRate := (if totalRequests > 0
                               then real droppedCount / real totalRequests * 100 else 0),
                 sm_averageLatency := (if processedCount > 0
                               then totalLat / real processedCount else 0) \<rparr>;
          s1 = s\<lparr>svc_metrics := m1\<rparr>;
          m2 = m1\<lparr>cost := getCost s1\<rparr>;
          m3 = (if health s = failed then m2\<lparr>uptime := max 0 (uptime m2 - 1)\<rparr>
                else if health s = healthy then m2\<lparr>uptime := min 100 (uptime m2 + 0.1)\<rparr>
                else m2)
      in s\<lparr>svc_metrics := m3\<rparr>)"

text \<open>
  The request loop of \<open>BaseService.processRequests\<close>: the accumulator holds the
  processed and dropped requests, the latency total and the call counter.
\<close>

fun BaseService_loop ::
  "js_runtime \<Rightarrow> 'a base_service_scheme \<Rightarrow> real \<Rightarrow> request list \<Rightarrow>
   request list \<times> request list \<times> real \<times> nat \<Rightarrow> request list \<times> request list \<times> real \<times> nat" where
  "BaseService_loop rt s loadRatio [] acc = acc"
| "BaseService_loop rt s loadRatio (r # rs) (ps, ds, tot, k) =
     (let (drop_it, k1) = shouldDropRequest rt s loadRatio k in
      if drop_it then BaseService_loop rt s loadRatio rs (ps, ds @ [r], tot, k1)
      else
        let lat = real_of_int (calculateLatency rt s loadRatio)
        in BaseService_loop rt s loadRatio rs
             (ps @ [r\<lparr>latency := latency r + lat\<rparr>], ds, tot + lat, k1))"

definition BaseService_processRequests ::
  "js_runtime \<Rightarrow> request list \<Rightarrow> base_service \<Rightarrow> nat \<Rightarrow>
   service_result \<times> base_service \<times> nat" where
  "BaseService_processRequests rt requests s k =
     (let loadRatio = fl rt (real (length requests) / capacity s);
          s1 = BaseService_updateHealth loadRatio (s\<lparr>currentLoad := loadRatio\<rparr>);
          (ps, ds, tot, k1) = BaseService_loop rt s1 loadRatio requests ([], [], 0, k);
          s2 = updateMetrics BaseService_getCost (length ps) (length ds) tot s1
      in (\<lparr> processed = ps, dropped = ds, blocked = [] \<rparr>, s2, k1))"

definition BaseService_reset :: "'a base_service_scheme \<Rightarrow> 'a base_service_scheme" where
  "BaseService_reset s =
     s\<lparr>currentLoad := 0, health := healthy, svc_metrics := initial_service_metrics\<rparr>"

definition BaseService_validate :: "js_runtime \<Rightarrow> 'a base_service_scheme \<Rightarrow> string list" where
  "BaseService_validate rt s =
     (if svc_name s = [] \<or> string_trim rt (svc_name s) = []
      then [''Service name is required''] else [])
     @ (if provider s \<notin> set [''aws'', ''gcp'', ''azure'']
        then [''Invalid provider - must be aws, gcp, or azure''] else [])
     @ (if capacity s \<le> 0 then [''Capacity must be greater than 0''] else [])
     @ (if baseCost s < 0 then [''Base cost cannot be negative''] else [])"


section \<open>AWS EC2 compute (infra/aws/compute.js)\<close>

record cpu_credits =
  cc_initial :: real
  cc_current :: real
  cc_maximum :: real
  cc_earnRate :: real
  cc_baseline :: real

record auto_scaling =
  as_enabled :: bool
  minInstances :: real
  maxInstances :: real
  desiredCapacity :: real
  scaleUpThreshold :: real
  scaleDownThreshold :: real
  cooldownPeriod :: real

record storage =
  volumeType :: string
  volumeSize :: real
  iops :: real
  throughput :: real
  encrypted :: bool

record networking =
  vpcId :: "string option"
  subnetId :: "string option"
  securityGroups :: "string list"
  publicIp :: bool
  enhancedNetworking :: bool

record placement_group =
  pg_name :: "string option"
  strategy :: string

record awscompute = base_service +
  ec2_type :: string
  instanceType :: string
  instanceFamily :: string
  availabilityZone :: string
  tenancy :: string
  isBurstable :: bool
  cpuCredits :: cpu_credits
  autoScaling :: auto_scaling
  storage :: storage
  networking :: networking
  instanceState :: string
  launchTime :: real
  currentCpuUtilization :: real
  lastScalingAction :: real
  spotInstance :: bool
  spotPrice :: "real option"
  interruptionRisk :: real
  reservedInstance :: bool
  reservationTerm :: real
  placementGroup :: placement_group

text \<open>The constructor's \<open>config\<close> object: every key is optional.\<close>

record auto_scaling_config =
  cfg_as_enabled :: "bool option"
  cfg_minInstances :: "real option"
  cfg_maxInstances :: "real option"
  cfg_desiredCapacity :: "real option"
  cfg_scaleUpThreshold :: "real option"
  cfg_scaleDownThreshold :: "real option"
  cfg_cooldownPeriod :: "real option"

record storage_config =
  cfg_volumeType :: "string option"
  cfg_volumeSize :: "real option"
  cfg_iops :: "real option"
  cfg_throughput :: "real option"
  cfg_encrypted :: "bool option"

record networking_config =
  cfg_vpcId :: "string option"
  cfg_subnetId :: "string option"
  cfg_securityGroups :: "string list option"
  cfg_publicIp :: "bool option"
  cfg_enhancedNetworking :: "bool option"

record placement_group_config =
  cfg_pg_name :: "string option"
  cfg_strategy :: "string option"

record compute_config =
  cfg_name :: "string option"
  cfg_capacity :: "real option"
  cfg_baseCost :: "real option"
  cfg_instanceType :: "string option"
  cfg_availabilityZone :: "string option"
  cfg_tenancy :: "string option"
  cfg_autoScaling :: "auto_scaling_config option"
  cfg_storage :: "storage_config option"
  cfg_networking :: "networking_config option"
  cfg_spotInstance :: "bool option"
  cfg_spotPrice :: "real option"
  cfg_reservedInstance :: "bool option"
  cfg_reservationTerm :: "real option"
  cfg_placementGroup :: "placement_group_config option"

text \<open>The empty configuration \<open>{}\<close>.\<close>

definition empty_compute_config :: compute_config where
  "empty_compute_config =
     \<lparr> cfg_name = None, cfg_capacity = None, cfg_baseCost = None, cfg_instanceType = None,
       cfg_availabilityZone = None, cfg_tenancy = None, cfg_autoScaling = None,
       cfg_storage = None, cfg_networking = None, cfg_spotInstance = None,
       cfg_spotPrice = None, cfg_reservedInstance = None, cfg_reservationTerm = None,
       cfg_placementGroup = None \<rparr>"

text \<open>\<open>instanceType.split('.')[0]\<close>.\<close>

definition parseInstanceFamily :: "string \<Rightarrow> string" where
  "parseInstanceFamily ty = takeWhile (\<lambda>c. c \<noteq> CHR ''.'') ty"

text \<open>\<open>c?.f\<close> on an optional sub-object.\<close>

definition opt_chain :: "'c option \<Rightarrow> ('c \<Rightarrow> 'v option) \<Rightarrow> 'v option" where
  "opt_chain c f = (case c of None \<Rightarrow> None | Some x \<Rightarrow> f x)"

definition nonempty_str :: "string option \<Rightarrow> string option" where
  "nonempty_str a = (case a of None \<Rightarrow> None | Some s \<Rightarrow> if s = [] then None else Some s)"

definition nonzero_num :: "real option \<Rightarrow> real option" where
  "nonzero_num a = (case a of None \<Rightarrow> None | Some x \<Rightarrow> if x = 0 then None else Some x)"

text \<open>\<open>new AWSCompute(config)\<close>.\<close>

definition AWSCompute_new :: "js_runtime \<Rightarrow> compute_config \<Rightarrow> nat \<Rightarrow> awscompute \<times> nat" where
  "AWSCompute_new rt cfg k =
     (let (b, k1) = BaseService_new rt (or_str (cfg_name cfg) ''AWS-EC2'') ''aws''
                      (or_num (cfg_capacity cfg) 500)
                      (or_num (cfg_baseCost cfg) (fl rt 0.05)) k;
          ity = or_str (cfg_instanceType cfg) ''t3.medium'';
          fam = parseInstanceFamily ity;
          burst = startsWith fam ''t'';
          asc = cfg_autoScaling cfg;
          stc = cfg_storage cfg;
          nwc = cfg_networking cfg;
          pgc = cfg_placementGroup cfg;
          spot = or_flag (cfg_spotInstance cfg) False
      in (base_service.extend
           (b\<lparr> latencyBase := 5, latencyMultiplier := fl rt 1.2,
               degradationThreshold := fl rt 0.7, failureThreshold := fl rt 1.3 \<rparr>)
           (awscompute.fields ''compute'' ity fam
              (or_str (cfg_availabilityZone cfg) ''us-east-1a'')
              (or_str (cfg_tenancy cfg) ''default'')
              burst
              \<lparr> cc_initial = (if burst then 30 else 0), cc_current = (if burst then 30 else 0),
                cc_maximum = (if burst then 144 else 0),
                cc_earnRate = (if burst then fl rt 0.2 else 0),
                cc_baseline = (if burst then 20 else 100) \<rparr>
              \<lparr> as_enabled = or_flag (opt_chain asc cfg_as_enabled) False,
                minInstances = or_num (opt_chain asc cfg_minInstances) 1,
                maxInstances = or_num (opt_chain asc cfg_maxInstances) 10,
                desiredCapacity = or_num (opt_chain asc cfg_desiredCapacity) 1,
                scaleUpThreshold = or_num (opt_chain asc cfg_scaleUpThreshold) 70,
                scaleDownThreshold = or_num (opt_chain asc cfg_scaleDownThreshold) 30,
                cooldownPeriod = or_num (opt_chain asc cfg_cooldownPeriod) 300 \<rparr>
              \<lparr> volumeType = or_str (opt_chain stc cfg_volumeType) ''gp3'',
                volumeSize = or_num (opt_chain stc cfg_volumeSize) 20,
                iops = or_num (opt_chain stc cfg_iops) 3000,
                throughput = or_num (opt_chain stc cfg_throughput) 125,
                encrypted = or_flag (opt_chain stc cfg_encrypted) True \<rparr>
              \<lparr> vpcId = nonempty_str (opt_chain nwc cfg_vpcId),
                subnetId = nonempty_str (opt_chain nwc cfg_subnetId),
                securityGroups = (case opt_chain nwc cfg_securityGroups of
                                    None \<Rightarrow> [] | Some g \<Rightarrow> g),
                publicIp = or_flag (opt_chain nwc cfg_publicIp) False,
                enhancedNetworking = or_flag (opt_chain nwc cfg_enhancedNetworking) True \<rparr>
              ''running'' (date_now rt k1) 0 0
              spot (nonzero_num (cfg_spotPrice cfg)) (if spot then fl rt 0.05 else 0)
              (or_flag (cfg_reservedInstance cfg) False)
              (or_num (cfg_reservationTerm cfg) 12)
              \<lparr> pg_name = nonempty_str (opt_chain pgc cfg_pg_name),
                strategy = or_str (opt_chain pgc cfg_strategy) ''cluster'' \<rparr>),
          k1 + 1))"

definition calculateEC2Latency :: "js_runtime \<Rightarrow> awscompute \<Rightarrow> real \<Rightarrow> int" where
  "calculateEC2Latency rt s loadRatio =
     (let l0 = real_of_int (calculateLatency rt s loadRatio);
          l1 = (if isBurstable s then
                  (if cc_current (cpuCredits s) \<le> 0 then
                     (let baselineRatio = fl rt (cc_baseline (cpuCredits s) / 100) in
                      if loadRatio > baselineRatio
                      then fl rt (l0 * fl rt (1 + fl rt (fl rt (loadRatio - baselineRatio) * 3)))
                      else l0)
                   else if loadRatio > fl rt (cc_baseline (cpuCredits s) / 100)
                   then fl rt (l0 * fl rt 0.8)
                   else l0)
                else l0);
          l2 = (if enhancedNetworking (networking s) then fl rt (l1 * fl rt 0.9) else l1);
          l3 = (if pg_name (placementGroup s) \<noteq> None \<and> pg_name (placementGroup s) \<noteq> Some []
                then (if strategy (placementGroup s) = ''cluster'' then fl rt (l2 * fl rt 0.85)
                      else if strategy (placementGroup s) = ''partition''
                        then fl rt (l2 * fl rt 0.95)
                      else if strategy (placementGroup s) = ''spread''
                        then fl rt (l2 * fl rt 1.05)
                      else l2)
                else l2)
      in round l3)"

definition updateCpuCredits :: "js_runtime \<Rightarrow> real \<Rightarrow> awscompute \<Rightarrow> awscompute" where
  "updateCpuCredits rt loadRatio s =
     (if \<not> isBurstable s then s
      else
        let cpuUtilization = fl rt (loadRatio * 100);
            baselineUtilization = cc_baseline (cpuCredits s);
            c = cpuCredits s
        in if cpuUtilization \<le> baselineUtilization
           then s\<lparr>cpuCredits :=
                   c\<lparr>cc_current := min (cc_maximum c) (fl rt (cc_current c + cc_earnRate c))\<rparr>\<rparr>
           else
             let burstUtilization = fl rt (cpuUtilization - baselineUtilization);
                 creditsConsumed = fl rt (fl rt (burstUtilization / 100) * 60)
             in s\<lparr>cpuCredits :=
                     c\<lparr>cc_current := max 0 (fl rt (cc_current c - creditsConsumed))\<rparr>\<rparr>)"

definition checkSpotInterruption :: "js_runtime \<Rightarrow> awscompute \<Rightarrow> nat \<Rightarrow> bool \<times> nat" where
  "checkSpotInterruption rt s k =
     (if \<not> spotInstance s then (False, k)
      else (math_random rt k < fl rt (interruptionRisk s / 60), k + 1))"

definition scaleUp :: "js_runtime \<Rightarrow> awscompute \<Rightarrow> awscompute" where
  "scaleUp rt s =
     (let a = autoScaling s;
          newCapacity = min (maxInstances a) (fl rt (desiredCapacity a + 1))
      in if newCapacity > desiredCapacity a
         then s\<lparr> autoScaling := a\<lparr>desiredCapacity := newCapacity\<rparr>,
                 capacity := fl rt (capacity s * fl rt (newCapacity / fl rt (newCapacity - 1))) \<rparr>
         else s)"

definition scaleDown :: "js_runtime \<Rightarrow> awscompute \<Rightarrow> awscompute" where
  "scaleDown rt s =
     (let a = autoScaling s;
          newCapacity = max (minInstances a) (fl rt (desiredCapacity a - 1))
      in if newCapacity < desiredCapacity a
         then s\<lparr> autoScaling := a\<lparr>desiredCapacity := newCapacity\<rparr>,
                 capacity := fl rt (capacity s * fl rt (newCapacity / fl rt (newCapacity + 1))) \<rparr>
         else s)"

definition evaluateAutoScaling :: "js_runtime \<Rightarrow> awscompute \<Rightarrow> nat \<Rightarrow> awscompute \<times> nat" where
  "evaluateAutoScaling rt s k =
     (if \<not> as_enabled (autoScaling s) then (s, k)
      else
        let now = date_now rt k;
            timeSinceLastAction = fl rt (fl rt (now - lastScalingAction s) / 1000)
        in if timeSinceLastAction < cooldownPeriod (autoScaling s) then (s, k + 1)
           else
             let currentCapacity = desiredCapacity (autoScaling s) in
             if currentCpuUtilization s > scaleUpThreshold (autoScaling s)
                \<and> currentCapacity < maxInstances (autoScaling s)
             then ((scaleUp rt s)\<lparr>lastScalingAction := now\<rparr>, k + 1)
             else if currentCpuUtilization s < scaleDownThreshold (autoScaling s)
                \<and> currentCapacity > minInstances (autoScaling s)
             then ((scaleDown rt s)\<lparr>lastScalingAction := now\<rparr>, k + 1)
             else (s, k + 1))"

definition AWSCompute_updateHealth :: "js_runtime \<Rightarrow> real \<Rightarrow> awscompute \<Rightarrow> awscompute" where
  "AWSCompute_updateHealth rt loadRatio s =
     (let s1 = BaseService_updateHealth loadRatio s;
          s2 = (if isBurstable s1 \<and> cc_current (cpuCredits s1) \<le> 0 \<and> loadRatio > 0.5
                then s1\<lparr>health := degraded\<rparr> else s1)
      in if spotInstance s2 \<and> interruptionRisk s2 > fl rt 0.1
         then s2\<lparr>health := degraded\<rparr> else s2)"

definition instanceCosts :: "(string \<times> real) list" where
  "instanceCosts =
     [(''t3.nano'', 0.0052 / 60), (''t3.micro'', 0.0104 / 60), (''t3.small'', 0.0208 / 60),
      (''t3.medium'', 0.0416 / 60), (''t3.large'', 0.0832 / 60), (''t3.xlarge'', 0.1664 / 60),
      (''m5.large'', 0.096 / 60), (''m5.xlarge'', 0.192 / 60),
      (''c5.large'', 0.085 / 60), (''c5.xlarge'', 0.17 / 60)]"

definition storageCostPerGB :: "(string \<times> real) list" where
  "storageCostPerGB =
     [(''gp2'', 0.10 / (30 * 24 * 60)), (''gp3'', 0.08 / (30 * 24 * 60)),
      (''io1'', 0.125 / (30 * 24 * 60)), (''io2'', 0.125 / (30 * 24 * 60))]"

definition AWSCompute_getCost :: "awscompute \<Rightarrow> real" where
  "AWSCompute_getCost s =
     (let instanceCost = (case map_of instanceCosts (instanceType s) of
                            Some c \<Rightarrow> c | None \<Rightarrow> baseCost s);
          n = desiredCapacity (autoScaling s);
          c1 = instanceCost * n;
          perGB = (case map_of storageCostPerGB (volumeType (storage s)) of
                     Some c \<Rightarrow> c | None \<Rightarrow> 0.08 / (30 * 24 * 60));
          storageCost = perGB * volumeSize (storage s);
          c2 = c1 + storageCost * n;
          c3 = (if volumeType (storage s) \<in> set [''io1'', ''io2'']
                then c2 + ((0.065 / (30 * 24 * 60)) * iops (storage s)) * n else c2);
          c4 = (if spotInstance s then c3 * 0.3 else c3);
          c5 = (if reservedInstance s
                then c4 * (if reservationTerm s \<ge> 36 then 0.6 else 0.75) else c4);
          dataTransferCost = requestsPerSecond (svc_metrics s) * 0.00001
      in c5 + dataTransferCost)"

text \<open>The request loop of \<open>AWSCompute.processRequests\<close>.\<close>

fun AWSCompute_loop ::
  "js_runtime \<Rightarrow> awscompute \<Rightarrow> real \<Rightarrow> request list \<Rightarrow>
   request list \<times> request list \<times> real \<times> nat \<Rightarrow> request list \<times> request list \<times> real \<times> nat" where
  "AWSCompute_loop rt s loadRatio [] acc = acc"
| "AWSCompute_loop rt s loadRatio (r # rs) (ps, ds, tot, k) =
     (let (drop_it, k1) = shouldDropRequest rt s loadRatio k in
      if drop_it then AWSCompute_loop rt s loadRatio rs (ps, ds @ [r], tot, k1)
      else
        let lat = real_of_int (calculateEC2Latency rt s loadRatio)
        in AWSCompute_loop rt s loadRatio rs
             (ps @ [r\<lparr> latency := latency r + lat, req_provider := Some ''aws'',
                       req_service := Some ''ec2'',
                       req_instanceType := Some (instanceType s) \<rparr>], ds, tot + lat, k1))"

definition AWSCompute_processRequests ::
  "js_runtime \<Rightarrow> request list \<Rightarrow> awscompute \<Rightarrow> nat \<Rightarrow>
   service_result \<times> awscompute \<times> nat" where
  "AWSCompute_processRequests rt requests s k =
     (if requests = [] then (\<lparr> processed = [], dropped = [], blocked = [] \<rparr>, s, k)
      else
        let loadRatio = fl rt (real (length requests) / capacity s);
            s1 = updateCpuCredits rt loadRatio
                   (s\<lparr> currentLoad := loadRatio,
                       currentCpuUtilization := min 100 (fl rt (loadRatio * 100)) \<rparr>);
            (interrupted, k1) = checkSpotInterruption rt s1 k
        in if spotInstance s1 \<and> interrupted
           then (\<lparr> processed = [], dropped = requests, blocked = [] \<rparr>, s1, k1)
           else
             let s2 = AWSCompute_updateHealth rt loadRatio s1;
                 (s3, k2) = evaluateAutoScaling rt s2 k1;
                 (ps, ds, tot, k3) = AWSCompute_loop rt s3 loadRatio requests ([], [], 0, k2);
                 s4 = updateMetrics AWSCompute_getCost (length ps) (length ds) tot s3
             in (\<lparr> processed = ps, dropped = ds, blocked = [] \<rparr>, s4, k3))"

definition validInstanceTypes :: "string list" where
  "validInstanceTypes =
     [''t3.nano'', ''t3.micro'', ''t3.small'', ''t3.medium'', ''t3.large'', ''t3.xlarge'',
      ''m5.large'', ''m5.xlarge'', ''c5.large'', ''c5.xlarge'']"

definition AWSCompute_validate :: "js_runtime \<Rightarrow> awscompute \<Rightarrow> string list" where
  "AWSCompute_validate rt s =
     BaseService_validate rt s
     @ (if instanceType s \<notin> set validInstanceTypes
        then [''Invalid instance type: '' @ instanceType s] else [])
     @ (if tenancy s \<notin> set [''default'', ''dedicated'', ''host'']
        then [''Invalid tenancy - must be default, dedicated, or host''] else [])
     @ (if minInstances (autoScaling s) > maxInstances (autoScaling s)
        then [''Auto scaling min instances cannot exceed max instances''] else [])
     @ (if volumeSize (storage s) < 1 \<or> volumeSize (storage s) > 16384
        then [''EBS volume size must be between 1 and 16384 GB''] else [])
     @ (if spotInstance s \<and> reservedInstance s
        then [''Instance cannot be both spot and reserved''] else [])"


section \<open>AWS WAF (infra/aws/compute.js, second module)\<close>

text \<open>
  A rule object carries the properties its evaluator reads (a managed rule its group, a
  custom rule its conditions, and so on); the \<open>TypeError\<close> a malformed rule or a
  rule without a name raises in the source is outside the model.
\<close>

record field_to_match =
  field_type :: string
  field_name :: string

record condition =
  cond_field :: field_to_match
  operator :: string
  cond_value :: string

record waf_rule =
  rule_id :: string
  rule_name :: string
  rule_type :: string
  managedRuleGroup :: "string option"
  priority :: real
  action :: string
  overrideAction :: string
  excludedRules :: "string list"
  conditions :: "condition list option"
  aggregateKeyType :: "string option"
  rateLimit_windowSize :: real
  countryCodes :: "string list option"
  ipSetId :: "string option"
  regexSetId :: "string option"
  fieldToMatch :: field_to_match

record ip_set =
  ipset_id :: string
  ipset_name :: string
  ipset_scope :: string
  ipAddressVersion :: string
  addresses :: "string list"

record waf_logging =
  log_enabled :: bool
  logDestination :: "string option"
  redactedFields :: "string list"

record waf_metrics =
  allowedRequests :: nat
  blockedRequests :: nat
  countedRequests :: nat
  captchaRequests :: nat
  challengeRequests :: nat
  ruleMatches :: "(string \<times> nat) list"
  falsePositives :: nat
  truePositives :: nat

record ml_capabilities =
  botControl :: bool
  fraudControl :: bool
  accountTakeover :: bool

record captcha_config =
  captcha_enabled :: bool
  immunityTime :: real
  customResponseBody :: "string option"

record awswaf = base_service +
  waf_type :: string
  scope :: string
  defaultAction :: string
  webAclId :: string
  webAclArn :: string
  managedRuleGroups :: "(string \<times> waf_rule) list"
  customRules :: "(string \<times> waf_rule) list"
  rateBasedRules :: "(string \<times> waf_rule) list"
  enabledManagedRules :: "string list"
  ipSets :: "(string \<times> ip_set) list"
  regexPatternSets :: "(string \<times> string list) list"
  logging :: waf_logging
  samplingRate :: real
  wafMetrics :: waf_metrics
  inspect_body :: bool
  mlCapabilities :: ml_capabilities
  captchaConfig :: captcha_config

text \<open>
  \<open>inspect_body\<close> is \<open>inspectionCapabilities.body\<close>, the one capability flag the
  code reads; the \<open>rules\<close> map of the source is never written or read and is left out.
\<close>

record waf_config =
  wcfg_name :: "string option"
  wcfg_capacity :: "real option"
  wcfg_baseCost :: "real option"
  wcfg_scope :: "string option"
  wcfg_defaultAction :: "string option"
  wcfg_webAclId :: "string option"
  wcfg_webAclArn :: "string option"
  wcfg_enabledManagedRules :: "string list option"
  wcfg_logging :: "waf_logging option"
  wcfg_samplingRate :: "real option"
  wcfg_mlCapabilities :: "ml_capabilities option"
  wcfg_captcha_enabled :: "bool option"
  wcfg_immunityTime :: "real option"
  wcfg_customResponseBody :: "string option"

definition empty_waf_config :: waf_config where
  "empty_waf_config =
     \<lparr> wcfg_name = None, wcfg_capacity = None, wcfg_baseCost = None, wcfg_scope = None,
       wcfg_defaultAction = None, wcfg_webAclId = None, wcfg_webAclArn = None,
       wcfg_enabledManagedRules = None, wcfg_logging = None, wcfg_samplingRate = None,
       wcfg_mlCapabilities = None, wcfg_captcha_enabled = None, wcfg_immunityTime = None,
       wcfg_customResponseBody = None \<rparr>"

text \<open>Decimal digits of a count, as the template literals print it.\<close>

fun show_nat :: "nat \<Rightarrow> string" where
  "show_nat n =
     (if n < 10 then [''0123456789'' ! n]
      else show_nat (n div 10) @ [''0123456789'' ! (n mod 10)])"

declare show_nat.simps [simp del]

definition addManagedRuleGroup ::
  "string \<Rightarrow> real \<Rightarrow> string option \<Rightarrow> string list option \<Rightarrow> awswaf \<Rightarrow> awswaf" where
  "addManagedRuleGroup groupName prio ovr excl w =
     (let rid = ''managed-'' @ show_nat (length (managedRuleGroups w) + 1)
      in w\<lparr>managedRuleGroups := map_set rid
            \<lparr> rule_id = rid, rule_name = groupName, rule_type = ''MANAGED'',
              managedRuleGroup = Some groupName, priority = prio, action = ''BLOCK'',
              overrideAction = or_str ovr ''NONE'',
              excludedRules = (case excl of None \<Rightarrow> [] | Some e \<Rightarrow> e),
              conditions = None, aggregateKeyType = None, rateLimit_windowSize = 0,
              countryCodes = None, ipSetId = None, regexSetId = None,
              fieldToMatch = \<lparr> field_type = [], field_name = [] \<rparr> \<rparr>
            (managedRuleGroups w)\<rparr>)"

text \<open>\<open>initializeManagedRules\<close>: one group per enabled name, with the next priority.\<close>

fun initializeManagedRules_loop :: "string list \<Rightarrow> awswaf \<Rightarrow> awswaf" where
  "initializeManagedRules_loop [] w = w"
| "initializeManagedRules_loop (g # gs) w =
     initializeManagedRules_loop gs
       (addManagedRuleGroup g (real (length (managedRuleGroups w) + 1)) (Some ''NONE'') (Some []) w)"

definition initializeManagedRules :: "awswaf \<Rightarrow> awswaf" where
  "initializeManagedRules w = initializeManagedRules_loop (enabledManagedRules w) w"

text \<open>The argument of \<open>addCustomRule\<close>.\<close>

record custom_rule_config =
  rc_name :: string
  rc_priority :: real
  rc_action :: string
  rc_conditions :: "condition list option"

definition addCustomRule :: "custom_rule_config \<Rightarrow> awswaf \<Rightarrow> awswaf" where
  "addCustomRule rc w =
     (let rid = ''custom-'' @ show_nat (length (customRules w) + 1)
      in w\<lparr>customRules := map_set rid
            \<lparr> rule_id = rid, rule_name = rc_name rc, rule_type = ''CUSTOM'',
              managedRuleGroup = None, priority = rc_priority rc, action = rc_action rc,
              overrideAction = [], excludedRules = [],
              conditions = Some (case rc_conditions rc of None \<Rightarrow> [] | Some c \<Rightarrow> c),
              aggregateKeyType = None, rateLimit_windowSize = 0,
              countryCodes = None, ipSetId = None, regexSetId = None,
              fieldToMatch = \<lparr> field_type = [], field_name = [] \<rparr> \<rparr>
            (customRules w)\<rparr>)"

definition addIPSet :: "string \<Rightarrow> string \<Rightarrow> string option \<Rightarrow> string list option \<Rightarrow> awswaf \<Rightarrow> awswaf" where
  "addIPSet setId nm ver addrs w =
     w\<lparr>ipSets := map_set setId
        \<lparr> ipset_id = setId, ipset_name = nm, ipset_scope = scope w,
          ipAddressVersion = or_str ver ''IPV4'',
          addresses = (case addrs of None \<Rightarrow> [] | Some a \<Rightarrow> a) \<rparr> (ipSets w)\<rparr>"

definition generateWebAclId :: "js_runtime \<Rightarrow> nat \<Rightarrow> string \<times> nat" where
  "generateWebAclId rt k =
     (number_toString rt 10 (date_now rt k) @ ''-''
        @ substr 2 9 (number_toString rt 36 (math_random rt (k + 1))), k + 2)"

definition generateWebAclArn :: "js_runtime \<Rightarrow> string \<Rightarrow> string \<Rightarrow> string \<Rightarrow> string" where
  "generateWebAclArn rt sc nm acl =
     ''arn:aws:wafv2:us-east-1:123456789012:'' @ string_toLowerCase rt sc @ ''/webacl/'' @ nm
       @ ''/'' @ acl"

text \<open>\<open>new AWSWAF(config)\<close>.\<close>

definition AWSWAF_new :: "js_runtime \<Rightarrow> waf_config \<Rightarrow> nat \<Rightarrow> awswaf \<times> nat" where
  "AWSWAF_new rt cfg k =
     (let (b, k1) = BaseService_new rt (or_str (wcfg_name cfg) ''AWS-WAF'') ''aws''
                      (or_num (wcfg_capacity cfg) 25000)
                      (or_num (wcfg_baseCost cfg) (fl rt 0.60)) k;
          sc = or_str (wcfg_scope cfg) ''CLOUDFRONT'';
          (acl, k2) = (case nonempty_str (wcfg_webAclId cfg) of
                         Some a \<Rightarrow> (a, k1) | None \<Rightarrow> generateWebAclId rt k1);
          arn = (case nonempty_str (wcfg_webAclArn cfg) of
                   Some a \<Rightarrow> a | None \<Rightarrow> generateWebAclArn rt sc (svc_name b) acl);
          lg = wcfg_logging cfg;
          ml = wcfg_mlCapabilities cfg
      in (initializeManagedRules
           (base_service.extend
             (b\<lparr> latencyBase := 2, latencyMultiplier := fl rt 0.4,
                 degradationThreshold := fl rt 0.95, failureThreshold := 2.5 \<rparr>)
             (awswaf.fields ''waf'' sc (or_str (wcfg_defaultAction cfg) ''ALLOW'') acl arn
                [] [] []
                (case wcfg_enabledManagedRules cfg of
                   Some e \<Rightarrow> e
                 | None \<Rightarrow> [''AWSManagedRulesCommonRuleSet'',
                            ''AWSManagedRulesKnownBadInputsRuleSet'',
                            ''AWSManagedRulesAmazonIpReputationList''])
                [] []
                (case lg of
                   None \<Rightarrow> \<lparr> log_enabled = False, logDestination = None, redactedFields = [] \<rparr>
                 | Some l \<Rightarrow> l\<lparr>logDestination := nonempty_str (logDestination l)\<rparr>)
                (or_num (wcfg_samplingRate cfg) 100)
                \<lparr> allowedRequests = 0, blockedRequests = 0, countedRequests = 0,
                  captchaRequests = 0, challengeRequests = 0, ruleMatches = [],
                  falsePositives = 0, truePositives = 0 \<rparr>
                True
                (case ml of
                   None \<Rightarrow> \<lparr> botControl = False, fraudControl = False, accountTakeover = False \<rparr>
                 | Some m \<Rightarrow> m)
                \<lparr> captcha_enabled = or_flag (wcfg_captcha_enabled cfg) False,
                  immunityTime = or_num (wcfg_immunityTime cfg) 300,
                  customResponseBody = nonempty_str (wcfg_customResponseBody cfg) \<rparr>)),
          k2))"

subsection \<open>Rule evaluation\<close>

definition opt_str :: "string option \<Rightarrow> string" where
  "opt_str a = (case a of None \<Rightarrow> [] | Some s \<Rightarrow> s)"

text \<open>The sources of the regular-expression literals, and whether they carry the flag \<open>i\<close>.\<close>

definition commonRuleSet_patterns :: "(string \<times> bool) list" where
  "commonRuleSet_patterns =
     [(''union.*select'', True), (''<script.*>'', True), (''javascript:'', True),
      (''on'' @ [CHR 0x5C] @ ''w+'' @ [CHR 0x5C] @ ''s*='', True),
      ([CHR 0x5C, CHR 0x27, CHR 0x5C] @ ''s*or'' @ [CHR 0x5C] @ ''s*'' @ [CHR 0x5C, CHR 0x27], True),
      ([CHR 0x5C, CHR 0x22, CHR 0x5C] @ ''s*or'' @ [CHR 0x5C] @ ''s*'' @ [CHR 0x5C, CHR 0x22], True)]"

definition knownBadInputs_patterns :: "(string \<times> bool) list" where
  "knownBadInputs_patterns =
     [([CHR 0x5C] @ ''.'' @ [CHR 0x5C] @ ''.'' @ [CHR 0x5C] @ ''/''
         @ [CHR 0x5C] @ ''.'' @ [CHR 0x5C] @ ''.'' @ [CHR 0x5C] @ ''/'', False),
      ([CHR 0x5C] @ ''/etc'' @ [CHR 0x5C] @ ''/passwd'', False),
      (''cmd'' @ [CHR 0x5C] @ ''.exe'', True), (''powershell'', True), (''%00'', False)]"

definition botControl_patterns :: "(string \<times> bool) list" where
  "botControl_patterns =
     [(''bot'', True), (''crawler'', True), (''spider'', True), (''scraper'', True),
      (''curl'', True), (''wget'', True)]"

definition some_pattern :: "js_runtime \<Rightarrow> (string \<times> bool) list \<Rightarrow> string \<Rightarrow> bool" where
  "some_pattern rt ps subject = list_ex (\<lambda>p. regex_test rt (fst p) (snd p) subject) ps"

definition evaluateCommonRuleSet :: "js_runtime \<Rightarrow> request \<Rightarrow> bool" where
  "evaluateCommonRuleSet rt r =
     some_pattern rt commonRuleSet_patterns
       (string_toLowerCase rt (join (CHR '' '')
          [path r, opt_str (queryString r), opt_str (userAgent r),
           json_stringify rt (case headers r of None \<Rightarrow> [] | Some h \<Rightarrow> h),
           opt_str (body r)]))"

definition evaluateKnownBadInputs :: "js_runtime \<Rightarrow> request \<Rightarrow> bool" where
  "evaluateKnownBadInputs rt r =
     some_pattern rt knownBadInputs_patterns
       (join (CHR '' '') [path r, opt_str (queryString r), opt_str (body r)])"

definition request_ip :: "request \<Rightarrow> string" where
  "request_ip r = or_str (clientIp r) (or_str (sourceIp r) ''127.0.0.1'')"

definition evaluateIpReputation :: "request \<Rightarrow> bool" where
  "evaluateIpReputation r =
     list_ex (\<lambda>p. str_includes (request_ip r) p) [''.666'', ''.999'', ''.123.123'']"

definition evaluateBotControl :: "js_runtime \<Rightarrow> awswaf \<Rightarrow> request \<Rightarrow> bool" where
  "evaluateBotControl rt w r =
     (if \<not> botControl (mlCapabilities w) then False
      else some_pattern rt botControl_patterns (or_str (userAgent r) []))"

definition evaluateManagedRule :: "js_runtime \<Rightarrow> awswaf \<Rightarrow> request \<Rightarrow> waf_rule \<Rightarrow> bool" where
  "evaluateManagedRule rt w r rule =
     (if managedRuleGroup rule = Some ''AWSManagedRulesCommonRuleSet''
        then evaluateCommonRuleSet rt r
      else if managedRuleGroup rule = Some ''AWSManagedRulesKnownBadInputsRuleSet''
        then evaluateKnownBadInputs rt r
      else if managedRuleGroup rule = Some ''AWSManagedRulesAmazonIpReputationList''
        then evaluateIpReputation r
      else if managedRuleGroup rule = Some ''AWSManagedRulesBotControlRuleSet''
        then evaluateBotControl rt w r
      else False)"

definition header_value :: "request \<Rightarrow> string \<Rightarrow> string" where
  "header_value r nm =
     (case headers r of None \<Rightarrow> [] | Some h \<Rightarrow> opt_str (map_of h nm))"

definition extractFieldValue :: "request \<Rightarrow> field_to_match \<Rightarrow> string" where
  "extractFieldValue r f =
     (if field_type f = ''URI'' then path r
      else if field_type f = ''QUERY_STRING'' then opt_str (queryString r)
      else if field_type f = ''HEADER'' then header_value r (field_name f)
      else if field_type f = ''METHOD'' then or_str (http_method r) ''GET''
      else if field_type f = ''BODY'' then opt_str (body r)
      else if field_type f = ''SINGLE_HEADER'' then header_value r (field_name f)
      else [])"

definition evaluateCondition :: "js_runtime \<Rightarrow> string \<Rightarrow> condition \<Rightarrow> bool" where
  "evaluateCondition rt fieldValue c =
     (if operator c = ''EXACTLY_MATCHES'' then fieldValue = cond_value c
      else if operator c = ''STARTS_WITH'' then startsWith fieldValue (cond_value c)
      else if operator c = ''ENDS_WITH'' then endsWith fieldValue (cond_value c)
      else if operator c = ''CONTAINS'' then str_includes fieldValue (cond_value c)
      else if operator c = ''CONTAINS_WORD''
        then regex_test rt ([CHR 0x5C] @ ''b'' @ cond_value c @ [CHR 0x5C] @ ''b'') True fieldValue
      else if operator c = ''REGEX_MATCH'' then regex_test rt (cond_value c) True fieldValue
      else False)"

definition evaluateCustomRule :: "js_runtime \<Rightarrow> request \<Rightarrow> waf_rule \<Rightarrow> bool" where
  "evaluateCustomRule rt r rule =
     list_all (\<lambda>c. evaluateCondition rt (extractFieldValue r (cond_field c)) c)
       (case conditions rule of None \<Rightarrow> [] | Some cs \<Rightarrow> cs)"

text \<open>
  \<open>evaluateRateBasedRule\<close> reads the clock once, then draws: a hit with probability 0.1.
\<close>

definition evaluateRateBasedRule :: "js_runtime \<Rightarrow> nat \<Rightarrow> bool \<times> nat" where
  "evaluateRateBasedRule rt k = (math_random rt (k + 1) < fl rt 0.1, k + 2)"

definition evaluateGeoMatchRule :: "request \<Rightarrow> waf_rule \<Rightarrow> bool" where
  "evaluateGeoMatchRule r rule =
     (case countryCodes rule of
        None \<Rightarrow> False
      | Some cs \<Rightarrow> or_str (geoCountry r) ''US'' \<in> set cs)"

definition evaluateIPSetRule :: "awswaf \<Rightarrow> request \<Rightarrow> waf_rule \<Rightarrow> bool" where
  "evaluateIPSetRule w r rule =
     (case opt_chain (ipSetId rule) (map_get (ipSets w)) of
        None \<Rightarrow> False
      | Some ipSet \<Rightarrow>
          list_ex (\<lambda>address.
              if CHR ''/'' \<in> set address
              then startsWith (request_ip r)
                     (upto_last (CHR ''.'') (takeWhile (\<lambda>c. c \<noteq> CHR ''/'') address))
              else request_ip r = address)
            (addresses ipSet))"

definition evaluateRegexRule :: "js_runtime \<Rightarrow> awswaf \<Rightarrow> request \<Rightarrow> waf_rule \<Rightarrow> bool" where
  "evaluateRegexRule rt w r rule =
     (case opt_chain (regexSetId rule) (map_get (regexPatternSets w)) of
        None \<Rightarrow> False
      | Some pats \<Rightarrow>
          list_ex (\<lambda>p. regex_test rt p True (extractFieldValue r (fieldToMatch rule))) pats)"

text \<open>\<open>evaluateRule\<close> returns \<open>{matches, action}\<close>, here with the new call counter.\<close>

definition evaluateRule ::
  "js_runtime \<Rightarrow> awswaf \<Rightarrow> request \<Rightarrow> waf_rule \<Rightarrow> nat \<Rightarrow> (bool \<times> string) \<times> nat" where
  "evaluateRule rt w r rule k =
     (let (m, k1) =
            (if rule_type rule = ''MANAGED'' then (evaluateManagedRule rt w r rule, k)
             else if rule_type rule = ''CUSTOM'' then (evaluateCustomRule rt r rule, k)
             else if rule_type rule = ''RATE_BASED'' then evaluateRateBasedRule rt k
             else if rule_type rule = ''GEO_MATCH'' then (evaluateGeoMatchRule r rule, k)
             else if rule_type rule = ''IP_SET'' then (evaluateIPSetRule w r rule, k)
             else if rule_type rule = ''REGEX'' then (evaluateRegexRule rt w r rule, k)
             else (False, k))
      in ((m, if m then action rule else ''CONTINUE''), k1))"

definition getSortedRules :: "awswaf \<Rightarrow> waf_rule list" where
  "getSortedRules w =
     sort_key priority
       (map snd (managedRuleGroups w) @ map snd (customRules w) @ map snd (rateBasedRules w))"

definition terminating_actions :: "string list" where
  "terminating_actions = [''BLOCK'', ''ALLOW'', ''CAPTCHA'', ''CHALLENGE'']"

text \<open>What \<open>inspectRequest\<close> returns.\<close>

record inspection_result =
  ir_action :: string
  ir_matchedRules :: "matched_rule list"
  terminatingRule :: "string option"

text \<open>
  The rule loop of \<open>inspectRequest\<close>. The state is the list of matches so far, the
  \<open>ruleMatches\<close> statistics and the call counter; the loop returns when a rule matches
  with a terminating action (the \<open>break\<close>), and otherwise goes on to the next rule.
\<close>

fun inspect_loop ::
  "js_runtime \<Rightarrow> awswaf \<Rightarrow> request \<Rightarrow> string \<Rightarrow> waf_rule list \<Rightarrow>
   matched_rule list \<Rightarrow> (string \<times> nat) list \<Rightarrow> nat \<Rightarrow>
   inspection_result \<times> (string \<times> nat) list \<times> nat" where
  "inspect_loop rt w r finalAction [] matched rm k =
     (\<lparr> ir_action = finalAction, ir_matchedRules = matched, terminatingRule = None \<rparr>, rm, k)"
| "inspect_loop rt w r finalAction (rule # rules) matched rm k =
     (let ((m, a), k1) = evaluateRule rt w r rule k in
      if m then
        let matched1 = matched @ [\<lparr> ruleId = rule_id rule, ruleName = rule_name rule,
                                   mr_action = a \<rparr>];
            currentCount = (case map_get rm (rule_id rule) of None \<Rightarrow> 0 | Some c \<Rightarrow> c);
            rm1 = map_set (rule_id rule) (currentCount + 1) rm
        in if a \<in> set terminating_actions
           then (\<lparr> ir_action = a, ir_matchedRules = matched1,
                   terminatingRule = Some (rule_id rule) \<rparr>, rm1, k1)
           else inspect_loop rt w r finalAction rules matched1 rm1 k1
      else inspect_loop rt w r finalAction rules matched rm k1)"

definition inspectRequest ::
  "js_runtime \<Rightarrow> request \<Rightarrow> awswaf \<Rightarrow> nat \<Rightarrow> inspection_result \<times> awswaf \<times> nat" where
  "inspectRequest rt r w k =
     (let (res, rm, k1) = inspect_loop rt w r (defaultAction w) (getSortedRules w) []
                            (ruleMatches (wafMetrics w)) k
      in (res, w\<lparr>wafMetrics := (wafMetrics w)\<lparr>ruleMatches := rm\<rparr>\<rparr>, k1))"


subsection \<open>Processing a batch\<close>

definition calculateWAFLatency ::
  "js_runtime \<Rightarrow> awswaf \<Rightarrow> real \<Rightarrow> inspection_result \<Rightarrow> int" where
  "calculateWAFLatency rt w loadRatio res =
     (let l0 = real_of_int (calculateLatency rt w loadRatio);
          rulesEvaluated = length (ir_matchedRules res) + 1;
          l1 = fl rt (l0 + fl rt (real rulesEvaluated * fl rt 0.1));
          hasComplexRules = list_ex (\<lambda>m. str_includes (ruleName m) ''Bot''
                                        \<or> str_includes (ruleName m) ''Fraud'')
                              (ir_matchedRules res);
          l2 = (if hasComplexRules then fl rt (l1 * 1.5) else l1);
          l3 = (if inspect_body w then fl rt (l2 + 1) else l2);
          l4 = (if log_enabled (logging w) then fl rt (l3 * fl rt 1.02) else l3)
      in round l4)"

definition AWSWAF_getCost :: "awswaf \<Rightarrow> real" where
  "AWSWAF_getCost w =
     (let webAclMonthlyCost = 1.00 / (30 * 24 * 60);
          ruleGroupCost = 1.00 / (30 * 24 * 60);
          c1 = webAclMonthlyCost + real (length (managedRuleGroups w)) * ruleGroupCost;
          totalRequests = real (allowedRequests (wafMetrics w) + blockedRequests (wafMetrics w)
                                + countedRequests (wafMetrics w));
          c2 = c1 + totalRequests * (0.60 / 1000000);
          c3 = (if botControl (mlCapabilities w)
                then c2 + totalRequests * (1.00 / 1000000) else c2);
          c4 = (if fraudControl (mlCapabilities w)
                then c3 + totalRequests * (7.50 / 1000000) else c3)
      in c4 + real (captchaRequests (wafMetrics w)) * (0.40 / 1000))"

definition updateWAFMetrics :: "awswaf \<Rightarrow> awswaf" where
  "updateWAFMetrics w =
     (let totalBlocked = blockedRequests (wafMetrics w) in
      if totalBlocked > 0 then
        let fp = nat \<lfloor>real totalBlocked * 0.05\<rfloor>
        in w\<lparr>wafMetrics := (wafMetrics w)\<lparr>falsePositives := fp, truePositives := totalBlocked - fp\<rparr>\<rparr>
      else w)"

text \<open>
  The \<open>switch\<close> on the action of an inspected request: which list receives the request,
  which counter goes up. An action outside the five cases leaves every list as it is.
\<close>

definition handle_action ::
  "string \<Rightarrow> request \<Rightarrow> request list \<times> request list \<times> waf_metrics \<Rightarrow>
   request list \<times> request list \<times> waf_metrics" where
  "handle_action a r st =
     (case st of (ps, bs, m) \<Rightarrow>
        if a = ''ALLOW'' then (ps @ [r], bs, m\<lparr>allowedRequests := allowedRequests m + 1\<rparr>)
        else if a = ''BLOCK'' then (ps, bs @ [r], m\<lparr>blockedRequests := blockedRequests m + 1\<rparr>)
        else if a = ''COUNT'' then (ps @ [r], bs, m\<lparr>countedRequests := countedRequests m + 1\<rparr>)
        else if a = ''CAPTCHA''
          then (ps @ [r\<lparr>requiresCaptcha := True\<rparr>], bs,
                m\<lparr>captchaRequests := captchaRequests m + 1\<rparr>)
        else if a = ''CHALLENGE''
          then (ps @ [r\<lparr>requiresChallenge := True\<rparr>], bs,
                m\<lparr>challengeRequests := challengeRequests m + 1\<rparr>)
        else (ps, bs, m))"

text \<open>
  The request loop of \<open>AWSWAF.processRequests\<close>: the accumulator holds the processed,
  dropped and blocked requests and the latency total; the firewall (its statistics change
  with every inspected request) and the call counter are threaded through.
\<close>

fun AWSWAF_loop ::
  "js_runtime \<Rightarrow> real \<Rightarrow> request list \<Rightarrow>
   request list \<times> request list \<times> request list \<times> real \<Rightarrow> awswaf \<Rightarrow> nat \<Rightarrow>
   (request list \<times> request list \<times> request list \<times> real) \<times> awswaf \<times> nat" where
  "AWSWAF_loop rt loadRatio [] acc w k = (acc, w, k)"
| "AWSWAF_loop rt loadRatio (r # rs) (ps, ds, bs, tot) w k =
     (let (drop_it, k1) = shouldDropRequest rt w loadRatio k in
      if drop_it then AWSWAF_loop rt loadRatio rs (ps, ds @ [r], bs, tot) w k1
      else
        let (res, w1, k2) = inspectRequest rt r w k1;
            lat = real_of_int (calculateWAFLatency rt w1 loadRatio res);
            r1 = r\<lparr> latency := latency r + lat, req_provider := Some ''aws'',
                    req_service := Some ''waf'', wafAction := Some (ir_action res),
                    matchedRules := Some (ir_matchedRules res) \<rparr>;
            (ps1, bs1, m1) = handle_action (ir_action res) r1 (ps, bs, wafMetrics w1)
        in AWSWAF_loop rt loadRatio rs (ps1, ds, bs1, tot + lat) (w1\<lparr>wafMetrics := m1\<rparr>) k2)"

definition AWSWAF_processRequests ::
  "js_runtime \<Rightarrow> request list \<Rightarrow> awswaf \<Rightarrow> nat \<Rightarrow> service_result \<times> awswaf \<times> nat" where
  "AWSWAF_processRequests rt requests w k =
     (if requests = [] then (\<lparr> processed = [], dropped = [], blocked = [] \<rparr>, w, k)
      else
        let loadRatio = fl rt (real (length requests) / capacity w);
            w1 = BaseService_updateHealth loadRatio (w\<lparr>currentLoad := loadRatio\<rparr>);
            ((ps, ds, bs, tot), w2, k1) = AWSWAF_loop rt loadRatio requests ([], [], [], 0) w1 k;
            w3 = updateMetrics AWSWAF_getCost (length ps) (length ds) tot (updateWAFMetrics w2)
        in (\<lparr> processed = ps, dropped = ds, blocked = bs \<rparr>, w3, k1))"

text \<open>The duplicate-priority check of \<open>validate\<close>, over the sorted rules.\<close>

fun duplicate_priorities :: "js_runtime \<Rightarrow> waf_rule list \<Rightarrow> real list \<Rightarrow> string list" where
  "duplicate_priorities rt [] seen = []"
| "duplicate_priorities rt (rule # rules) seen =
     (if priority rule \<in> set seen
      then (''Duplicate rule priority: '' @ number_toString rt 10 (priority rule))
             # duplicate_priorities rt rules seen
      else duplicate_priorities rt rules (priority rule # seen))"

definition AWSWAF_validate :: "js_runtime \<Rightarrow> awswaf \<Rightarrow> string list" where
  "AWSWAF_validate rt w =
     BaseService_validate rt w
     @ (if scope w \<notin> set [''CLOUDFRONT'', ''REGIONAL'']
        then [''Invalid scope - must be CLOUDFRONT or REGIONAL''] else [])
     @ (if defaultAction w \<notin> set [''ALLOW'', ''BLOCK'']
        then [''Invalid default action - must be ALLOW or BLOCK''] else [])
     @ (if samplingRate w < 0 \<or> samplingRate w > 100
        then [''Sampling rate must be between 0 and 100''] else [])
     @ duplicate_priorities rt (getSortedRules w) []"

section \<open>Service instances\<close>

text \<open>
  The registry holds instances of any class; the model has the base class and the two
  classes above. A method call on an instance dispatches on its class.
\<close>

datatype service = BaseSvc base_service | EC2 awscompute | WAF awswaf

fun service_id :: "service \<Rightarrow> string" where
  "service_id (BaseSvc s) = svc_id s"
| "service_id (EC2 s) = svc_id s"
| "service_id (WAF s) = svc_id s"

fun service_name :: "service \<Rightarrow> string" where
  "service_name (BaseSvc s) = svc_name s"
| "service_name (EC2 s) = svc_name s"
| "service_name (WAF s) = svc_name s"

fun service_provider :: "service \<Rightarrow> string" where
  "service_provider (BaseSvc s) = provider s"
| "service_provider (EC2 s) = provider s"
| "service_provider (WAF s) = provider s"

fun service_health :: "service \<Rightarrow> health" where
  "service_health (BaseSvc s) = health s"
| "service_health (EC2 s) = health s"
| "service_health (WAF s) = health s"

fun service_load :: "service \<Rightarrow> real" where
  "service_load (BaseSvc s) = currentLoad s"
| "service_load (EC2 s) = currentLoad s"
| "service_load (WAF s) = currentLoad s"

fun service_capacity :: "service \<Rightarrow> real" where
  "service_capacity (BaseSvc s) = capacity s"
| "service_capacity (EC2 s) = capacity s"
| "service_capacity (WAF s) = capacity s"

fun service_baseCost :: "service \<Rightarrow> real" where
  "service_baseCost (BaseSvc s) = baseCost s"
| "service_baseCost (EC2 s) = baseCost s"
| "service_baseCost (WAF s) = baseCost s"

fun service_getCost :: "service \<Rightarrow> real" where
  "service_getCost (BaseSvc s) = BaseService_getCost s"
| "service_getCost (EC2 s) = AWSCompute_getCost s"
| "service_getCost (WAF s) = AWSWAF_getCost s"

fun service_validate :: "js_runtime \<Rightarrow> service \<Rightarrow> string list" where
  "service_validate rt (BaseSvc s) = BaseService_validate rt s"
| "service_validate rt (EC2 s) = AWSCompute_validate rt s"
| "service_validate rt (WAF s) = AWSWAF_validate rt s"

fun service_reset :: "service \<Rightarrow> service" where
  "service_reset (BaseSvc s) = BaseSvc (BaseService_reset s)"
| "service_reset (EC2 s) = EC2 (BaseService_reset s)"
| "service_reset (WAF s) = WAF (BaseService_reset s)"

fun service_processRequests ::
  "js_runtime \<Rightarrow> request list \<Rightarrow> service \<Rightarrow> nat \<Rightarrow> service_result \<times> service \<times> nat" where
  "service_processRequests rt rs (BaseSvc s) k =
     (let (res, s1, k1) = BaseService_processRequests rt rs s k in (res, BaseSvc s1, k1))"
| "service_processRequests rt rs (EC2 s) k =
     (let (res, s1, k1) = AWSCompute_processRequests rt rs s k in (res, EC2 s1, k1))"
| "service_processRequests rt rs (WAF s) k =
     (let (res, s1, k1) = AWSWAF_processRequests rt rs s k in (res, WAF s1, k1))"


section \<open>The game state (engine/gameState.js)\<close>

record provider_section =
  ps_services :: "string list"
  ps_totalCost :: real

record providers =
  aws :: provider_section
  gcp :: provider_section
  azure :: provider_section

record metrics =
  availability :: real
  averageLatency :: real
  totalCost :: real
  reputation :: real
  requestsProcessed :: nat
  requestsDropped :: nat
  requestsBlocked :: nat
  slaThreshold :: real
  gameOver :: bool
  gameOverReason :: "string option"

record traffic_summary =
  ts_tick :: nat
  ts_total :: nat
  ts_users :: nat
  ts_bots :: nat
  ts_attacks :: nat
  ts_timestamp :: real

text \<open>
  The \<open>services\<close> map of the game state holds the very objects the registry holds
  (\<open>deployService\<close> stores one object in both): the model keeps the objects in the
  registry and, in the game state, the keys of its map (\<open>gs_services\<close>). The
  \<open>scenario\<close> field is always \<open>null\<close> and is left out.
\<close>

record game_state =
  tick :: nat
  isRunning :: bool
  gs_providers :: providers
  gs_metrics :: metrics
  currentRequests :: "request list"
  trafficHistory :: "traffic_summary list"
  gs_services :: "string list"
  gs_connections :: "(string \<times> string list) list"

text \<open>The counts \<open>{processed, dropped, blocked, totalLatency}\<close> of one tick.\<close>

record tick_results =
  n_processed :: nat
  n_dropped :: nat
  n_blocked :: nat
  totalLatency :: real

definition initial_providers :: providers where
  "initial_providers =
     \<lparr> aws = \<lparr> ps_services = [], ps_totalCost = 0 \<rparr>,
       gcp = \<lparr> ps_services = [], ps_totalCost = 0 \<rparr>,
       azure = \<lparr> ps_services = [], ps_totalCost = 0 \<rparr> \<rparr>"

definition initial_metrics :: metrics where
  "initial_metrics =
     \<lparr> availability = 100, averageLatency = 0, totalCost = 0, reputation = 100,
       requestsProcessed = 0, requestsDropped = 0, requestsBlocked = 0, slaThreshold = 90,
       gameOver = False, gameOverReason = None \<rparr>"

text \<open>\<open>new GameState()\<close>, and what \<open>reset()\<close> restores.\<close>

definition GameState_new :: game_state where
  "GameState_new =
     \<lparr> tick = 0, isRunning = False, gs_providers = initial_providers,
       gs_metrics = initial_metrics, currentRequests = [], trafficHistory = [],
       gs_services = [], gs_connections = [] \<rparr>"

definition GameState_reset :: "game_state \<Rightarrow> game_state" where
  "GameState_reset gs = GameState_new"

text \<open>
  \<open>this.providers[p]\<close> for a provider name. A name outside the three raises a
  \<open>TypeError\<close> in the source; the registry validates the provider before it calls
  \<open>addService\<close>, and the model leaves the sections as they are.
\<close>

definition update_provider ::
  "string \<Rightarrow> (provider_section \<Rightarrow> provider_section) \<Rightarrow> providers \<Rightarrow> providers" where
  "update_provider p f ps =
     (if p = ''aws'' then ps\<lparr>aws := f (aws ps)\<rparr>
      else if p = ''gcp'' then ps\<lparr>gcp := f (gcp ps)\<rparr>
      else if p = ''azure'' then ps\<lparr>azure := f (azure ps)\<rparr>
      else ps)"

definition addService :: "service \<Rightarrow> game_state \<Rightarrow> game_state" where
  "addService svc gs =
     gs\<lparr> gs_services := (if service_id svc \<in> set (gs_services gs) then gs_services gs
                           else gs_services gs @ [service_id svc]),
         gs_providers := update_provider (service_provider svc)
                           (\<lambda>p. p\<lparr>ps_services := ps_services p @ [service_id svc]\<rparr>)
                           (gs_providers gs) \<rparr>"

text \<open>
  \<open>get\<close> is \<open>this.services.get\<close>: the objects live in the registry, so the caller
  supplies the lookup.
\<close>

definition removeService :: "(string \<Rightarrow> service option) \<Rightarrow> string \<Rightarrow> game_state \<Rightarrow> game_state" where
  "removeService get serviceId gs =
     (case get serviceId of
        None \<Rightarrow> gs
      | Some svc \<Rightarrow>
          gs\<lparr> gs_providers := update_provider (service_provider svc)
                                (\<lambda>p. p\<lparr>ps_services := remove1 serviceId (ps_services p)\<rparr>)
                                (gs_providers gs),
              gs_services := filter (\<lambda>i. i \<noteq> serviceId) (gs_services gs),
              gs_connections := map_delete serviceId (gs_connections gs) \<rparr>)"

definition connectServices :: "string \<Rightarrow> string \<Rightarrow> game_state \<Rightarrow> game_state" where
  "connectServices a b gs =
     (let c0 = gs_connections gs;
          c1 = (if map_get c0 a = None then map_set a [] c0 else c0);
          c2 = (if map_get c1 b = None then map_set b [] c1 else c1);
          c3 = map_set a ((case map_get c2 a of None \<Rightarrow> [] | Some l \<Rightarrow> l) @ [b]) c2;
          c4 = map_set b ((case map_get c3 b of None \<Rightarrow> [] | Some l \<Rightarrow> l) @ [a]) c3
      in gs\<lparr>gs_connections := c4\<rparr>)"

definition checkGameOverConditions :: "js_runtime \<Rightarrow> metrics \<Rightarrow> metrics" where
  "checkGameOverConditions rt m =
     (if reputation m \<le> 0
      then m\<lparr>gameOver := True, gameOverReason := Some ''Reputation reached zero''\<rparr>
      else if availability m < slaThreshold m
      then m\<lparr>gameOver := True,
             gameOverReason := Some (''Availability below SLA threshold (''
                                     @ number_toString rt 10 (slaThreshold m) @ ''%)'')\<rparr>
      else m)"

text \<open>The cost of the services a provider section lists (those the map still holds).\<close>

definition section_cost :: "(string \<Rightarrow> service option) \<Rightarrow> provider_section \<Rightarrow> real" where
  "section_cost get p =
     sum_list (map (\<lambda>i. case get i of None \<Rightarrow> 0 | Some svc \<Rightarrow> service_getCost svc)
                 (ps_services p))"

definition GameState_updateMetrics ::
  "js_runtime \<Rightarrow> (string \<Rightarrow> service option) \<Rightarrow> tick_results \<Rightarrow> game_state \<Rightarrow> game_state" where
  "GameState_updateMetrics rt get tr gs =
     (let m0 = gs_metrics gs;
          m1 = m0\<lparr> requestsProcessed := requestsProcessed m0 + n_processed tr,
                  requestsDropped := requestsDropped m0 + n_dropped tr,
                  requestsBlocked := requestsBlocked m0 + n_blocked tr \<rparr>;
          totalRequests = n_processed tr + n_dropped tr;
          m2 = (if totalRequests > 0
                then m1\<lparr>availability := (real (n_processed tr) / real totalRequests) * 100\<rparr>
                else m1);
          m3 = (if n_processed tr > 0
                then m2\<lparr>averageLatency := totalLatency tr / real (n_processed tr)\<rparr>
                else m2);
          m4 = m3\<lparr>reputation :=
                 max 0 (min 100 (reputation m3 - (real (n_dropped tr) * 0.5)
                                   + (real (n_blocked tr) * 0.1)))\<rparr>;
          ps = gs_providers gs;
          ca = section_cost get (aws ps);
          cg = section_cost get (gcp ps);
          cz = section_cost get (azure ps);
          ps1 = \<lparr> aws = (aws ps)\<lparr>ps_totalCost := ca\<rparr>,
                  gcp = (gcp ps)\<lparr>ps_totalCost := cg\<rparr>,
                  azure = (azure ps)\<lparr>ps_totalCost := cz\<rparr> \<rparr>;
          m5 = m4\<lparr>totalCost := ca + cg + cz\<rparr>
      in gs\<lparr> gs_providers := ps1, gs_metrics := checkGameOverConditions rt m5 \<rparr>)"

section \<open>The service registry (infra/serviceRegistry.js)\<close>

text \<open>
  The simulation as a whole: the game state, the registry's \<open>services\<close> map, the
  traffic generator, the clock, the event history of the bus, and the error lists
  \<open>deployService\<close> reports with \<open>console.error\<close> (other console output is not
  modelled).
\<close>

record traffic_generator =
  baseTrafficRate :: real
  trafficGrowthRate :: real
  attackProbability :: real
  botRatio :: real
  currentTrafficMultiplier :: real
  attackInProgress :: bool
  attackDuration :: int

record clock =
  interval :: real
  timer_armed :: bool
  clock_isRunning :: bool
  tickCount :: nat

record world =
  gameState :: game_state
  services :: "(string \<times> service) list"
  generator :: traffic_generator
  game_clock :: clock
  eventHistory :: "(string \<times> real) list"
  console_errors :: "string list list"

text \<open>\<open>gameState.services.get\<close>, resolved against the objects of the registry.\<close>

definition gs_get :: "world \<Rightarrow> string \<Rightarrow> service option" where
  "gs_get w i = (if i \<in> set (gs_services (gameState w)) then map_get (services w) i else None)"

definition deployService :: "js_runtime \<Rightarrow> service \<Rightarrow> world \<Rightarrow> bool \<times> world" where
  "deployService rt svc w =
     (let errors = service_validate rt svc in
      if length errors > 0
      then (False, w\<lparr>console_errors := console_errors w @ [errors]\<rparr>)
      else (True, w\<lparr> services := map_set (service_id svc) svc (services w),
                      gameState := addService svc (gameState w) \<rparr>))"

definition registry_removeService :: "string \<Rightarrow> world \<Rightarrow> bool \<times> world" where
  "registry_removeService serviceId w =
     (case map_get (services w) serviceId of
        Some svc \<Rightarrow>
          (True, w\<lparr> services := map_delete serviceId (services w),
                    gameState := removeService (gs_get w) serviceId (gameState w) \<rparr>)
      | None \<Rightarrow> (False, w))"

text \<open>\<open>routeRequests\<close>: request number \<open>i\<close> goes to service number \<open>i mod n\<close>.\<close>

fun route_loop ::
  "string list \<Rightarrow> request list \<Rightarrow> nat \<Rightarrow> (string \<times> request list) list \<Rightarrow>
   (string \<times> request list) list" where
  "route_loop ids [] i m = m"
| "route_loop ids (r # rs) i m =
     (let serviceId = ids ! (i mod length ids);
          cur = (case map_get m serviceId of None \<Rightarrow> [] | Some l \<Rightarrow> l)
      in route_loop ids rs (i + 1) (map_set serviceId (cur @ [r]) m))"

definition routeRequests :: "(string \<times> service) list \<Rightarrow> request list \<Rightarrow> (string \<times> request list) list" where
  "routeRequests svcs requests =
     (if length svcs = 0 then []
      else route_loop (map fst svcs) requests 0 [])"

text \<open>
  The loop of \<open>processRequests\<close> over the routed batches. It adds up the lengths of
  each result's \<open>processed\<close> and \<open>dropped\<close> lists and the latencies of the processed
  requests; the source reads no other key of the result.
\<close>

fun process_loop ::
  "js_runtime \<Rightarrow> (string \<times> request list) list \<Rightarrow>
   (string \<times> service) list \<times> nat \<times> nat \<times> real \<times> nat \<Rightarrow>
   (string \<times> service) list \<times> nat \<times> nat \<times> real \<times> nat" where
  "process_loop rt [] acc = acc"
| "process_loop rt ((serviceId, serviceRequests) # routed) (svcs, totalProcessed, totalDropped, totalLat, k) =
     (case map_get svcs serviceId of
        None \<Rightarrow> process_loop rt routed (svcs, totalProcessed, totalDropped, totalLat, k)
      | Some svc \<Rightarrow>
          let (res, svc1, k1) = service_processRequests rt serviceRequests svc k
          in process_loop rt routed
               (map_set serviceId svc1 svcs,
                totalProcessed + length (processed res),
                totalDropped + length (dropped res),
                totalLat + sum_list (map latency (processed res)), k1))"

definition registry_processRequests ::
  "js_runtime \<Rightarrow> request list \<Rightarrow> world \<Rightarrow> nat \<Rightarrow> tick_results \<times> world \<times> nat" where
  "registry_processRequests rt requests w k =
     (if length requests = 0
      then (\<lparr> n_processed = 0, n_dropped = 0, n_blocked = 0, totalLatency = 0 \<rparr>, w, k)
      else
        let totalBlocked = 0;
            routedRequests = routeRequests (services w) requests;
            (svcs, totalProcessed, totalDropped, totalLat, k1) =
               process_loop rt routedRequests (services w, 0, 0, 0, k);
            tr = \<lparr> n_processed = totalProcessed, n_dropped = totalDropped,
                   n_blocked = totalBlocked, totalLatency = totalLat \<rparr>;
            w1 = w\<lparr>services := svcs\<rparr>
        in (tr, w1\<lparr>gameState := GameState_updateMetrics rt (gs_get w1) tr (gameState w1)\<rparr>, k1))"

definition registry_reset :: "world \<Rightarrow> world" where
  "registry_reset w = w\<lparr>services := map (\<lambda>(i, svc). (i, service_reset svc)) (services w)\<rparr>"


section \<open>The traffic generator (traffic/generator.js)\<close>

text \<open>The parameters of the generator are finite numbers.\<close>

definition TrafficGenerator_new :: "js_runtime \<Rightarrow> traffic_generator" where
  "TrafficGenerator_new rt =
     \<lparr> baseTrafficRate = 10, trafficGrowthRate = fl rt 0.02, attackProbability = fl rt 0.05,
       botRatio = fl rt 0.15, currentTrafficMultiplier = 1.0, attackInProgress = False,
       attackDuration = 0 \<rparr>"

definition getGaussianMultiplier :: "js_runtime \<Rightarrow> real \<Rightarrow> real \<Rightarrow> real \<Rightarrow> real" where
  "getGaussianMultiplier rt x center width =
     fl_lib rt (exp (fl rt (- fl_lib rt ((fl rt (x - center)) ^ 2)
                            / fl rt (2 * fl_lib rt (width ^ 2)))))"

definition getTimePattern :: "js_runtime \<Rightarrow> nat \<Rightarrow> real" where
  "getTimePattern rt t =
     (let hourOfDay = fl rt (real (t mod 240) / 10);
          morningPeak = getGaussianMultiplier rt hourOfDay 10 1;
          afternoonPeak = getGaussianMultiplier rt hourOfDay 15 1;
          eveningPeak = getGaussianMultiplier rt hourOfDay 20 1
      in fl rt (fl rt 0.3
                + fl rt (fl rt (fl rt (morningPeak + afternoonPeak) + eveningPeak) * fl rt 0.7)))"

text \<open>
  \<open>calculateTrafficVolume\<close>. The growth factor \<open>Math.pow(1 + rate, tick)\<close> overflows to
  \<open>Infinity\<close> at a large tick, and the product is then \<open>Infinity\<close> or \<open>NaN\<close>.
\<close>

definition calculateTrafficVolume :: "js_runtime \<Rightarrow> traffic_generator \<Rightarrow> nat \<Rightarrow> jsnum" where
  "calculateTrafficVolume rt g t =
     (let growthMultiplier = js_pow rt (to_double rt (1 + trafficGrowthRate g)) t;
          timePattern = getTimePattern rt t;
          volume = js_round
                     (js_mul rt
                        (js_mul rt (js_mul rt (Num (baseTrafficRate g)) growthMultiplier)
                           (Num timePattern))
                        (Num (currentTrafficMultiplier g)))
      in js_max (Num 1) volume)"

definition user_paths :: "string list" where
  "user_paths = [''/'', ''/home'', ''/products'', ''/about'', ''/contact'',
                 ''/login'', ''/register'', ''/profile'', ''/cart'', ''/checkout'']"

definition bot_paths :: "string list" where
  "bot_paths = [''/'', ''/robots.txt'', ''/sitemap.xml'', ''/api/health'',
                ''/products'', ''/about'', ''/contact'']"

definition attack_paths :: "string list" where
  "attack_paths = [''/admin'', ''/wp-admin'', ''/login'', ''/api/users'',
                   ''/../../etc/passwd'', ''/api/admin'', ''/.env'',
                   ''/phpmyadmin'', ''/admin.php'']"

text \<open>
  \<open>pathList[Math.floor(Math.random() * pathList.length)]\<close>. An index out of range gives
  \<open>undefined\<close> in the source, which every reader of \<open>path\<close> treats as the empty string.
\<close>

definition generatePath :: "js_runtime \<Rightarrow> string \<Rightarrow> nat \<Rightarrow> string \<times> nat" where
  "generatePath rt requestType k =
     (let pathList = (if requestType = ''bot'' then bot_paths
                      else if requestType = ''attack'' then attack_paths
                      else user_paths);
          i = \<lfloor>fl rt (math_random rt k * real (length pathList))\<rfloor>
      in (if 0 \<le> i \<and> i < int (length pathList) then pathList ! nat i else [], k + 1))"

definition user_source :: "js_runtime \<Rightarrow> real \<Rightarrow> string" where
  "user_source rt rand = (if rand < fl rt 0.6 then ''organic''
                          else if rand < fl rt 0.85 then ''campaign'' else ''referral'')"

definition bot_source :: "js_runtime \<Rightarrow> real \<Rightarrow> string" where
  "bot_source rt rand = (if rand < fl rt 0.4 then ''search_crawler''
                         else if rand < fl rt 0.7 then ''monitoring'' else ''scraping'')"

definition attack_source :: "js_runtime \<Rightarrow> real \<Rightarrow> string" where
  "attack_source rt rand = (if rand < fl rt 0.6 then ''ddos''
                            else if rand < fl rt 0.8 then ''brute_force'' else ''injection'')"

text \<open>
  The three generation loops have one body: draw the source, build the request, draw its
  path. \<open>n\<close> is the number of iterations left.
\<close>

fun generate_loop ::
  "js_runtime \<Rightarrow> string \<Rightarrow> (real \<Rightarrow> string) \<Rightarrow> nat \<Rightarrow> request list \<Rightarrow> nat \<Rightarrow>
   request list \<times> nat" where
  "generate_loop rt ty src 0 acc k = (acc, k)"
| "generate_loop rt ty src (Suc n) acc k =
     (let rand = math_random rt k;
          (r, k1) = Request_new rt ty (src rand) (k + 1);
          (p, k2) = generatePath rt ty k1
      in generate_loop rt ty src n (acc @ [r\<lparr>path := p\<rparr>]) k2)"

text \<open>
  An array holds at most \<open>2\<^sup>3\<^sup>2 - 1\<close> elements: \<open>push\<close> onto a full array raises a
  \<open>RangeError\<close>. A generation loop runs until its count is reached or, the count being
  larger (or \<open>Infinity\<close>), until the \<open>push\<close> of its iteration number \<open>2\<^sup>3\<^sup>2\<close> raises.
  The memory the engine has is not a limit in the model.
\<close>

datatype js_error = RangeError

definition array_max_length :: nat where
  "array_max_length = 4294967295"

definition generate_requests ::
  "js_runtime \<Rightarrow> string \<Rightarrow> (real \<Rightarrow> string) \<Rightarrow> jsnum \<Rightarrow> nat \<Rightarrow>
   (js_error + request list) \<times> nat" where
  "generate_requests rt ty src c k =
     (let n = (case loop_count c of
                 Some n \<Rightarrow> min n (array_max_length + 1)
               | None \<Rightarrow> array_max_length + 1);
          (rs, k1) = generate_loop rt ty src n [] k
      in if n \<le> array_max_length then (Inr rs, k1) else (Inl RangeError, k1))"

definition generateUserRequests ::
  "js_runtime \<Rightarrow> traffic_generator \<Rightarrow> jsnum \<Rightarrow> nat \<Rightarrow> (js_error + request list) \<times> nat" where
  "generateUserRequests rt g totalVolume k =
     generate_requests rt ''user'' (user_source rt)
       (js_round (js_mul rt totalVolume (Num (fl rt (1 - botRatio g))))) k"

definition generateBotRequests ::
  "js_runtime \<Rightarrow> traffic_generator \<Rightarrow> jsnum \<Rightarrow> nat \<Rightarrow> (js_error + request list) \<times> nat" where
  "generateBotRequests rt g totalVolume k =
     generate_requests rt ''bot'' (bot_source rt)
       (js_round (js_mul rt totalVolume (Num (botRatio g)))) k"

text \<open>
  \<open>generateAttackRequests\<close> returns the requests and leaves the generator's attack state
  updated; when the loop raises, the state is as the start of the attack left it.
\<close>

definition generateAttackRequests ::
  "js_runtime \<Rightarrow> traffic_generator \<Rightarrow> nat \<Rightarrow>
   ((js_error + request list) \<times> traffic_generator) \<times> nat" where
  "generateAttackRequests rt g k =
     (let (g1, k1) =
            (if attackInProgress g then (g, k)
             else if math_random rt k < attackProbability g
             then (g\<lparr> attackInProgress := True,
                      attackDuration := \<lfloor>fl rt (math_random rt (k + 1) * 10)\<rfloor> + 5 \<rparr>, k + 2)
             else (g, k + 1))
      in if attackInProgress g1 then
           let attackVolume = \<lfloor>fl rt (math_random rt k1 * 100)\<rfloor> + 50;
               (res, k2) = generate_requests rt ''attack'' (attack_source rt)
                             (Num (real_of_int attackVolume)) (k1 + 1)
           in case res of
                Inl e \<Rightarrow> ((Inl e, g1), k2)
              | Inr rs \<Rightarrow>
                  let g2 = g1\<lparr>attackDuration := attackDuration g1 - 1\<rparr>;
                      g3 = (if attackDuration g2 \<le> 0 then g2\<lparr>attackInProgress := False\<rparr> else g2)
                  in ((Inr rs, g3), k2)
         else ((Inr [], g1), k1))"

definition updateTrafficHistory ::
  "js_runtime \<Rightarrow> nat \<Rightarrow> request list \<Rightarrow> game_state \<Rightarrow> nat \<Rightarrow> game_state \<times> nat" where
  "updateTrafficHistory rt t requests gs k =
     (let summary = \<lparr> ts_tick = t, ts_total = length requests,
                      ts_users = length (filter (\<lambda>r. req_type r = ''user'') requests),
                      ts_bots = length (filter (\<lambda>r. req_type r = ''bot'') requests),
                      ts_attacks = length (filter (\<lambda>r. req_type r = ''attack'') requests),
                      ts_timestamp = date_now rt k \<rparr>;
          h = trafficHistory gs @ [summary]
      in (gs\<lparr>trafficHistory := (if length h > 100 then tl h else h)\<rparr>, k + 1))"

text \<open>
  \<open>generateTraffic\<close>: a \<open>RangeError\<close> of one of the loops, or of the \<open>push\<close> that
  joins the three arrays, leaves the function at that point, with the state as it is
  then.
\<close>

definition generateTraffic ::
  "js_runtime \<Rightarrow> nat \<Rightarrow> world \<Rightarrow> nat \<Rightarrow> (js_error + request list) \<times> world \<times> nat" where
  "generateTraffic rt t w k =
     (let g = generator w;
          trafficVolume = calculateTrafficVolume rt g t;
          (users, k1) = generateUserRequests rt g trafficVolume k
      in case users of
           Inl e \<Rightarrow> (Inl e, w, k1)
         | Inr userRequests \<Rightarrow>
             let (bots, k2) = generateBotRequests rt g trafficVolume k1
             in case bots of
                  Inl e \<Rightarrow> (Inl e, w, k2)
                | Inr botRequests \<Rightarrow>
                    let ((attacks, g1), k3) = generateAttackRequests rt g k2
                    in case attacks of
                         Inl e \<Rightarrow> (Inl e, w\<lparr>generator := g1\<rparr>, k3)
                       | Inr attackRequests \<Rightarrow>
                           let requests = userRequests @ botRequests @ attackRequests
                           in if length requests > array_max_length
                              then (Inl RangeError, w\<lparr>generator := g1\<rparr>, k3)
                              else
                                let (gs1, k4) = updateTrafficHistory rt t requests
                                       ((gameState w)\<lparr>currentRequests := requests\<rparr>) k3
                                in (Inr requests, w\<lparr>generator := g1, gameState := gs1\<rparr>, k4))"

definition TrafficGenerator_reset :: "traffic_generator \<Rightarrow> traffic_generator" where
  "TrafficGenerator_reset g =
     g\<lparr>currentTrafficMultiplier := 1.0, attackInProgress := False, attackDuration := 0\<rparr>"

section \<open>The clock, the event bus and the game loop (engine/)\<close>

definition Clock_new :: "real \<Rightarrow> clock" where
  "Clock_new i = \<lparr> interval = i, timer_armed = False, clock_isRunning = False, tickCount = 0 \<rparr>"

definition Clock_start :: "clock \<Rightarrow> clock" where
  "Clock_start c = (if clock_isRunning c then c
                    else c\<lparr>clock_isRunning := True, timer_armed := True\<rparr>)"

definition Clock_stop :: "clock \<Rightarrow> clock" where
  "Clock_stop c = (if \<not> clock_isRunning c then c
                   else c\<lparr>clock_isRunning := False, timer_armed := False\<rparr>)"

definition Clock_reset :: "clock \<Rightarrow> clock" where
  "Clock_reset c = (Clock_stop c)\<lparr>tickCount := 0\<rparr>"

text \<open>
  The events of the bus with what their payloads carry to the subscribers. The
  subscribers are those the constructors and \<open>main.js\<close> register; a subscriber that
  only logs does nothing here.
\<close>

datatype event =
    TICK_START nat
  | TRAFFIC_GENERATED nat
  | REQUESTS_PROCESSED nat "request list"
  | METRICS_UPDATED nat
  | SERVICE_DEPLOYED service
  | SERVICE_REMOVED string
  | PROVIDER_CHANGED
  | GAME_OVER "string option"
  | GAME_RESET
  | UI_UPDATE nat

fun event_type :: "event \<Rightarrow> string" where
  "event_type (TICK_START _) = ''tick_start''"
| "event_type (TRAFFIC_GENERATED _) = ''traffic_generated''"
| "event_type (REQUESTS_PROCESSED _ _) = ''requests_processed''"
| "event_type (METRICS_UPDATED _) = ''metrics_updated''"
| "event_type (SERVICE_DEPLOYED _) = ''service_deployed''"
| "event_type (SERVICE_REMOVED _) = ''service_removed''"
| "event_type PROVIDER_CHANGED = ''provider_changed''"
| "event_type (GAME_OVER _) = ''game_over''"
| "event_type GAME_RESET = ''game_reset''"
| "event_type (UI_UPDATE _) = ''ui_update''"

definition pause :: "world \<Rightarrow> world" where
  "pause w = w\<lparr> gameState := (gameState w)\<lparr>isRunning := False\<rparr>,
                game_clock := Clock_stop (game_clock w) \<rparr>"

definition start :: "world \<Rightarrow> world" where
  "start w =
     (if gameOver (gs_metrics (gameState w)) then w
      else w\<lparr> gameState := (gameState w)\<lparr>isRunning := True\<rparr>,
              game_clock := Clock_start (game_clock w) \<rparr>)"

definition reset :: "world \<Rightarrow> world" where
  "reset w =
     (let w1 = w\<lparr> game_clock := Clock_reset (game_clock w),
                  gameState := GameState_reset (gameState w) \<rparr>;
          w2 = registry_reset w1
      in w2\<lparr>generator := TrafficGenerator_reset (generator w2), eventHistory := []\<rparr>)"

text \<open>
  The subscribers of each event, in the order they were registered. \<open>emit\<close> calls each
  in a \<open>try\<close> block: an exception ends the subscriber and the state stays as the
  subscriber left it.
\<close>

fun handlers :: "js_runtime \<Rightarrow> event \<Rightarrow> world \<Rightarrow> nat \<Rightarrow> world \<times> nat" where
  "handlers rt (TRAFFIC_GENERATED t) w k =
     (let (rs, w1, k1) = generateTraffic rt t w k in (w1, k1))"
| "handlers rt (REQUESTS_PROCESSED t requests) w k =
     (let (tr, w1, k1) = registry_processRequests rt requests w k in (w1, k1))"
| "handlers rt (SERVICE_DEPLOYED svc) w k = (snd (deployService rt svc w), k)"
| "handlers rt (SERVICE_REMOVED serviceId) w k = (snd (registry_removeService serviceId w), k)"
| "handlers rt (GAME_OVER reason) w k = (pause w, k)"
| "handlers rt GAME_RESET w k = (reset w, k)"
| "handlers rt ev w k = (w, k)"

text \<open>\<open>emit\<close>: record the event (at most 1000 are kept), then run the subscribers.\<close>

definition emit :: "js_runtime \<Rightarrow> event \<Rightarrow> world \<Rightarrow> nat \<Rightarrow> world \<times> nat" where
  "emit rt ev w k =
     (let h = eventHistory w @ [(event_type ev, date_now rt k)];
          w1 = w\<lparr>eventHistory := (if length h > 1000 then tl h else h)\<rparr>
      in handlers rt ev w1 (k + 1))"

text \<open>\<open>GameLoop.executeTick(tickNumber)\<close>.\<close>

definition executeTick :: "js_runtime \<Rightarrow> nat \<Rightarrow> world \<Rightarrow> nat \<Rightarrow> world \<times> nat" where
  "executeTick rt tickNumber w k =
     (if gameOver (gs_metrics (gameState w)) then (pause w, k)
      else
        let w0 = w\<lparr>gameState := (gameState w)\<lparr>tick := tickNumber\<rparr>\<rparr>;
            (w1, k1) = emit rt (TICK_START tickNumber) w0 k;
            (w2, k2) = emit rt (TRAFFIC_GENERATED tickNumber) w1 k1;
            (w3, k3) = emit rt (REQUESTS_PROCESSED tickNumber (currentRequests (gameState w2))) w2 k2;
            (w4, k4) = emit rt (METRICS_UPDATED tickNumber) w3 k3;
            (w5, k5) = emit rt (UI_UPDATE tickNumber) w4 k4
        in if gameOver (gs_metrics (gameState w5))
           then emit rt (GAME_OVER (gameOverReason (gs_metrics (gameState w5)))) w5 k5
           else (w5, k5))"

text \<open>The timer of the clock firing once: count the tick, run the callback.\<close>

definition clock_fire :: "js_runtime \<Rightarrow> world \<Rightarrow> nat \<Rightarrow> world \<times> nat" where
  "clock_fire rt w k =
     (let c = game_clock w;
          w1 = w\<lparr>game_clock := c\<lparr>tickCount := tickCount c + 1\<rparr>\<rparr>
      in executeTick rt (tickCount c + 1) w1 k)"

text \<open>A run of \<open>executeTick\<close> calls, one per tick number of the list.\<close>

fun executeTicks :: "js_runtime \<Rightarrow> nat list \<Rightarrow> world \<Rightarrow> nat \<Rightarrow> world \<times> nat" where
  "executeTicks rt [] w k = (w, k)"
| "executeTicks rt (n # ns) w k = (let (w1, k1) = executeTick rt n w k in executeTicks rt ns w1 k1)"

text \<open>\<open>new GameLoop()\<close>: the state the constructors set up.\<close>

definition GameLoop_new :: "js_runtime \<Rightarrow> world" where
  "GameLoop_new rt =
     \<lparr> gameState = GameState_new, services = [], generator = TrafficGenerator_new rt,
       game_clock = Clock_new 1000, eventHistory = [], console_errors = [] \<rparr>"

section \<open>Concrete inputs\<close>

text \<open>
  A runtime for evaluating the model on concrete inputs: every draw is 0.5, the clock
  reads the call index, numbers print as \<open>0\<close>, no pattern matches, strings are
  Latin-1, and no operation has a rounding error.
\<close>

definition exact_rounding :: rounding where
  "exact_rounding = Abs_rounding (\<lambda>x. x)"

definition test_runtime :: js_runtime where
  "test_runtime =
     \<lparr> math_random = (\<lambda>k. 0.5), date_now = (\<lambda>k. real k),
       number_toString = (\<lambda>radix x. ''0''), regex_test = (\<lambda>src i s. False),
       json_stringify = (\<lambda>h. ''{}''), string_trim = latin1_trim,
       string_toLowerCase = latin1_toLowerCase, double_rounding = exact_rounding,
       library_rounding = exact_rounding \<rparr>"

text \<open>The counts of a tick that drops 20 requests and blocks 10.\<close>

definition tick_20_10 :: tick_results where
  "tick_20_10 = \<lparr> n_processed = 0, n_dropped = 20, n_blocked = 10, totalLatency = 0 \<rparr>"

text \<open>The counts of a tick with no request at all, and a game state with metrics to keep.\<close>

definition tick_idle :: tick_results where
  "tick_idle = \<lparr> n_processed = 0, n_dropped = 0, n_blocked = 0, totalLatency = 0 \<rparr>"

definition state_42 :: game_state where
  "state_42 = GameState_new\<lparr>gs_metrics := initial_metrics\<lparr>availability := 42, averageLatency := 7\<rparr>\<rparr>"

text \<open>
  The generator after \<open>triggerTrafficSpike(0, d)\<close>: every parameter as constructed, the
  multiplier 0.
\<close>

definition generator_zero :: traffic_generator where
  "generator_zero = (TrafficGenerator_new test_runtime)\<lparr>currentTrafficMultiplier := 0\<rparr>"

subsection \<open>Describing an inspection\<close>




text \<open>
  A firewall without managed rule groups and three custom rules, added against their
  priority order, and a request for \<open>/admin\<close>.
\<close>

definition uri_condition :: "string \<Rightarrow> string \<Rightarrow> condition" where
  "uri_condition op v = \<lparr> cond_field = \<lparr> field_type = ''URI'', field_name = [] \<rparr>, operator = op, cond_value = v \<rparr>"

definition waf_no_managed :: awswaf where
  "waf_no_managed = fst (AWSWAF_new test_runtime (empty_waf_config\<lparr>wcfg_enabledManagedRules := Some []\<rparr>) 0)"


definition request_admin :: request where
  "request_admin = (fst (Request_new test_runtime ''attack'' ''ddos'' 0))\<lparr>path := ''/admin''\<rparr>"




text \<open>A game that is over, at tick 41.\<close>

definition world_over :: world where
  "world_over =
     (GameLoop_new test_runtime)\<lparr>gameState := GameState_new\<lparr> tick := 41,
        gs_metrics := initial_metrics\<lparr> reputation := 0, gameOver := True,
                                        gameOverReason := Some ''Reputation reached zero'' \<rparr> \<rparr>\<rparr>"

text \<open>
  A compute instance breaking four rules at once: unknown provider, negative capacity,
  negative base cost, spot and reserved together.
\<close>

definition bad_compute :: awscompute where
  "bad_compute =
     (fst (AWSCompute_new test_runtime
            (empty_compute_config\<lparr>cfg_spotInstance := Some True, cfg_reservedInstance := Some True\<rparr>) 0))
       \<lparr> provider := ''ibm'', capacity := - 5, baseCost := - 1 \<rparr>"

subsection \<open>Health by the thresholds\<close>


text \<open>
  The configuration \<open>{capacity: 500}\<close>, every other key at its default (instance type
  \<open>t3.medium\<close>, burstable), and the same with the non-burstable type \<open>m5.large\<close>.
\<close>

definition compute_config_500 :: compute_config where
  "compute_config_500 = empty_compute_config\<lparr>cfg_capacity := Some 500\<rparr>"

definition compute_config_m5 :: compute_config where
  "compute_config_m5 = empty_compute_config\<lparr>cfg_capacity := Some 500, cfg_instanceType := Some ''m5.large''\<rparr>"

text \<open>
  The load ratio of a batch: the number of requests offered over the capacity, as the
  division returns it.
\<close>

definition offered_load :: "js_runtime \<Rightarrow> request list \<Rightarrow> real \<Rightarrow> real" where
  "offered_load rt requests cap = fl rt (real (length requests) / cap)"

text \<open>
  The instance and the call counter as the request loop of \<open>AWSCompute.processRequests\<close>
  finds them: after the load, the CPU credits, the health and the auto scaling of the tick.
\<close>

definition loop_entry :: "js_runtime \<Rightarrow> request list \<Rightarrow> awscompute \<Rightarrow> nat \<Rightarrow> awscompute \<times> nat" where
  "loop_entry rt requests s k =
     (let l = offered_load rt requests (capacity s);
          s1 = updateCpuCredits rt l
                 (s\<lparr>currentLoad := l, currentCpuUtilization := min 100 (fl rt (l * 100))\<rparr>)
      in evaluateAutoScaling rt (AWSCompute_updateHealth rt l s1)
           (snd (checkSpotInterruption rt s1 k)))"

text \<open>The draw of \<open>checkSpotInterruption\<close> does not hit (no draw without a spot instance).\<close>

definition not_interrupted :: "js_runtime \<Rightarrow> awscompute \<Rightarrow> nat \<Rightarrow> bool" where
  "not_interrupted rt s k =
     (if spotInstance s then \<not> math_random rt k < fl rt (interruptionRisk s / 60) else True)"

text \<open>
  The default instance, a batch of 300 requests, and the instance after one and after two
  ticks of that batch.
\<close>

definition compute_default :: awscompute where
  "compute_default = fst (AWSCompute_new test_runtime compute_config_500 0)"




text \<open>What the request loop of the compute instance does to a request it processes.\<close>

definition ec2_mark :: "js_runtime \<Rightarrow> awscompute \<Rightarrow> real \<Rightarrow> request \<Rightarrow> request" where
  "ec2_mark rt s l r =
     r\<lparr> latency := latency r + real_of_int (calculateEC2Latency rt s l),
        req_provider := Some ''aws'', req_service := Some ''ec2'',
        req_instanceType := Some (instanceType s) \<rparr>"

text \<open>The non-burstable instance and a base service of capacity 100.\<close>

definition compute_m5 :: awscompute where
  "compute_m5 = fst (AWSCompute_new test_runtime compute_config_m5 0)"


text \<open>
  A firewall whose one rule blocks \<open>/admin\<close>, the world after deploying it, and the
  rule object \<open>addCustomRule\<close> builds.
\<close>

definition waf_block_admin :: awswaf where
  "waf_block_admin =
     addCustomRule \<lparr> rc_name = ''block-admin'', rc_priority = 1, rc_action = ''BLOCK'',
                     rc_conditions = Some [uri_condition ''EXACTLY_MATCHES'' ''/admin''] \<rparr>
       waf_no_managed"

definition world_waf :: world where
  "world_waf = snd (deployService test_runtime (WAF waf_block_admin) (GameLoop_new test_runtime))"

definition rule_block_admin_1 :: waf_rule where
  "rule_block_admin_1 =
     \<lparr> rule_id = ''custom-1'', rule_name = ''block-admin'', rule_type = ''CUSTOM'',
       managedRuleGroup = None, priority = 1, action = ''BLOCK'', overrideAction = [],
       excludedRules = [], conditions = Some [uri_condition ''EXACTLY_MATCHES'' ''/admin''],
       aggregateKeyType = None, rateLimit_windowSize = 0, countryCodes = None, ipSetId = None,
       regexSetId = None, fieldToMatch = \<lparr> field_type = [], field_name = [] \<rparr> \<rparr>"



section \<open>Verified properties\<close>

subsection \<open>Rounding\<close>

lemma rounding_error: "\<bar>apply_rounding r x - x\<bar> \<le> \<bar>x\<bar> / 2 ^ 52"
  using apply_rounding [of r] by simp

lemma rounding_exact: "apply_rounding exact_rounding x = x"
  by (simp add: exact_rounding_def Abs_rounding_inverse)

lemma rounding_near:
  assumes "0 \<le> x"
  shows "x * (99 / 100) \<le> apply_rounding r x" and "apply_rounding r x \<le> x * (101 / 100)"
proof -
  define d where "d = \<bar>x\<bar> / 2 ^ 52"
  have e: "\<bar>apply_rounding r x - x\<bar> \<le> d"
    unfolding d_def by (rule rounding_error)
  have "x / 2 ^ 52 \<le> x / 100"
    using assms by (intro divide_left_mono) simp_all
  then have b: "d \<le> x / 100"
    using assms by (simp add: d_def)
  show "x * (99 / 100) \<le> apply_rounding r x" and "apply_rounding r x \<le> x * (101 / 100)"
    using e b by linarith+
qed

lemma rounding_pos: "0 < x \<Longrightarrow> 0 < apply_rounding r x"
  using rounding_near(1) [of x r] by (simp add: less_le_trans)

lemma fl_exact [simp]: "fl test_runtime x = x" "fl_lib test_runtime x = x"
  by (simp_all add: fl_def fl_lib_def test_runtime_def rounding_exact)

lemma fl_zero [simp]: "fl rt 0 = 0"
  using rounding_error [of "double_rounding rt" 0] by (simp add: fl_def)

lemma fl_near:
  assumes "0 \<le> x"
  shows "x * (99 / 100) \<le> fl rt x" and "fl rt x \<le> x * (101 / 100)"
  using rounding_near [OF assms] by (simp_all add: fl_def)

lemma fl_pos: "0 < x \<Longrightarrow> 0 < fl rt x" "0 < x \<Longrightarrow> 0 < fl_lib rt x"
  by (simp_all add: fl_def fl_lib_def rounding_pos)

subsection \<open>Metrics of the game state\<close>

lemma reputation_checkGameOver [simp]:
  "reputation (checkGameOverConditions rt m) = reputation m"
  by (simp add: checkGameOverConditions_def)

lemma availability_checkGameOver [simp]:
  "availability (checkGameOverConditions rt m) = availability m"
  by (simp add: checkGameOverConditions_def)

lemma averageLatency_checkGameOver [simp]:
  "averageLatency (checkGameOverConditions rt m) = averageLatency m"
  by (simp add: checkGameOverConditions_def)

lemma updateMetrics_reputation:
  "reputation (gs_metrics (GameState_updateMetrics rt get tr gs)) =
     max 0 (min 100 (reputation (gs_metrics gs) - real (n_dropped tr) * 0.5
                       + real (n_blocked tr) * 0.1))"
  by (simp add: GameState_updateMetrics_def Let_def)

text \<open>
  Claim C6. A tick update with \<open>dropped\<close> and \<open>blocked\<close> counts sets the reputation to
  \<open>clamp(old - dropped * 0.5 + blocked * 0.1, 0, 100)\<close>; so the new reputation lies in
  \<open>[0, 100]\<close> whatever the counts (and whatever the old value).
\<close>

theorem C6_reputation_clamped:
  "reputation (gs_metrics (GameState_updateMetrics rt get tr gs)) =
     max 0 (min 100 (reputation (gs_metrics gs) - real (n_dropped tr) * 0.5
                       + real (n_blocked tr) * 0.1))
   \<and> 0 \<le> reputation (gs_metrics (GameState_updateMetrics rt get tr gs))
   \<and> reputation (gs_metrics (GameState_updateMetrics rt get tr gs)) \<le> 100"
  unfolding updateMetrics_reputation by simp

text \<open>The scenario of the claim: from 100, 20 drops and 10 blocks give 91.\<close>

theorem C6_reputation_witness:
  "reputation (gs_metrics GameState_new) = 100
   \<and> reputation (gs_metrics
        (GameState_updateMetrics test_runtime (\<lambda>i. None) tick_20_10 GameState_new)) = 91"
  using C6_reputation_clamped [of test_runtime "\<lambda>i. None" tick_20_10 GameState_new]
  by (simp add: GameState_new_def initial_metrics_def tick_20_10_def)

text \<open>
  Claim C9. When \<open>processed + dropped = 0\<close> the availability keeps its previous value,
  and when \<open>processed = 0\<close> the average latency keeps its previous value; each is
  recomputed from the tick's counts exactly when its denominator is positive.
\<close>

theorem C9_stale_metrics:
  "(n_processed tr + n_dropped tr = 0 \<longrightarrow>
      availability (gs_metrics (GameState_updateMetrics rt get tr gs))
        = availability (gs_metrics gs))
   \<and> (n_processed tr = 0 \<longrightarrow>
      averageLatency (gs_metrics (GameState_updateMetrics rt get tr gs))
        = averageLatency (gs_metrics gs))
   \<and> (n_processed tr + n_dropped tr > 0 \<longrightarrow>
      availability (gs_metrics (GameState_updateMetrics rt get tr gs))
        = real (n_processed tr) / real (n_processed tr + n_dropped tr) * 100)
   \<and> (n_processed tr > 0 \<longrightarrow>
      averageLatency (gs_metrics (GameState_updateMetrics rt get tr gs))
        = totalLatency tr / real (n_processed tr))"
  by (simp add: GameState_updateMetrics_def Let_def)

theorem C9_stale_metrics_witness:
  "n_processed tick_idle + n_dropped tick_idle = 0
   \<and> availability (gs_metrics
        (GameState_updateMetrics test_runtime (\<lambda>i. None) tick_idle state_42)) = 42
   \<and> averageLatency (gs_metrics
        (GameState_updateMetrics test_runtime (\<lambda>i. None) tick_idle state_42)) = 7"
  using C9_stale_metrics [of tick_idle test_runtime "\<lambda>i. None" state_42]
  by (simp add: tick_idle_def state_42_def)

subsection \<open>Traffic volume\<close>

lemma power_overflow:
  fixes b :: real
  assumes "2 \<le> b ^ m" and "1 \<le> b" and "m * e \<le> n"
  shows "2 ^ e \<le> b ^ n"
proof -
  have "(2::real) ^ e \<le> (b ^ m) ^ e"
    using assms(1) by (intro power_mono) simp_all
  also have "\<dots> = b ^ (m * e)"
    by (simp add: power_mult)
  also have "\<dots> \<le> b ^ n"
    using assms(2,3) by (rule power_increasing[rotated])
  finally show ?thesis .
qed

lemma js_pow_overflow:
  "2 ^ 1024 \<le> x ^ n \<Longrightarrow> n \<noteq> 0 \<Longrightarrow> js_pow test_runtime (Num x) n = PosInfinity"
  by (simp add: js_pow_def overflow_def)

lemma gaussian_pos: "0 < getGaussianMultiplier rt x c w"
  by (simp add: getGaussianMultiplier_def fl_pos)

lemma getTimePattern_pos: "0 < getTimePattern rt t"
  unfolding getTimePattern_def Let_def
  by (intro fl_pos add_pos_pos mult_pos_pos gaussian_pos) simp_all

lemma volume_nan:
  assumes "js_pow rt (to_double rt (1 + trafficGrowthRate g)) t = PosInfinity"
    and "0 < baseTrafficRate g" and "currentTrafficMultiplier g = 0"
  shows "calculateTrafficVolume rt g t = NaN"
  using assms getTimePattern_pos [of rt t]
  by (simp add: calculateTrafficVolume_def Let_def)

lemma volume_cases:
  "calculateTrafficVolume rt g t = NaN \<or> calculateTrafficVolume rt g t = PosInfinity
   \<or> (\<exists>x. calculateTrafficVolume rt g t = Num x \<and> 1 \<le> x)"
proof -
  have "js_max (Num 1) v = NaN \<or> js_max (Num 1) v = PosInfinity
        \<or> (\<exists>x. js_max (Num 1) v = Num x \<and> 1 \<le> x)" for v
    by (cases v) simp_all
  then show ?thesis
    by (simp add: calculateTrafficVolume_def Let_def)
qed

lemma generator_zero_fields:
  "baseTrafficRate generator_zero = 10" "currentTrafficMultiplier generator_zero = 0"
  "to_double test_runtime (1 + trafficGrowthRate generator_zero) = Num (51 / 50)"
  "botRatio generator_zero = 3 / 20"
  by (simp_all add: generator_zero_def TrafficGenerator_new_def to_double_def overflow_def)

lemma growth_40000: "js_pow test_runtime (Num (51 / 50)) 40000 = PosInfinity"
proof (rule js_pow_overflow)
  have "(2::real) \<le> (51 / 50) ^ 36" by (simp add: power_divide)
  then show "(2::real) ^ 1024 \<le> (51 / 50) ^ 40000"
    by (rule power_overflow) simp_all
  show "(40000::nat) \<noteq> 0" by simp
qed

text \<open>
  The volume is \<open>NaN\<close>, \<open>Infinity\<close> or a number that is at least 1 (lemma
  \<open>volume_cases\<close>).

  Claim C10, evaluated where it fails. The generator is in a spike of multiplier 0 and the
  tick is 40000, where the growth factor \<open>Math.pow(1.02, tick)\<close> has overflowed to
  \<open>Infinity\<close>: the product is \<open>Infinity * 0\<close>, and the volume is \<open>NaN\<close>, not a
  number that is at least 1. The loops that generate the user and the bot requests then
  produce no request.
\<close>

theorem C10_volume_not_a_number:
  "currentTrafficMultiplier generator_zero = 0
   \<and> js_pow test_runtime (to_double test_runtime (1 + trafficGrowthRate generator_zero)) 40000
       = PosInfinity
   \<and> calculateTrafficVolume test_runtime generator_zero 40000 = NaN
   \<and> generateUserRequests test_runtime generator_zero
        (calculateTrafficVolume test_runtime generator_zero 40000) 0 = (Inr [], 0)
   \<and> generateBotRequests test_runtime generator_zero
        (calculateTrafficVolume test_runtime generator_zero 40000) 0 = (Inr [], 0)"
proof -
  have g: "js_pow test_runtime (to_double test_runtime (1 + trafficGrowthRate generator_zero)) 40000
       = PosInfinity"
    unfolding generator_zero_fields by (rule growth_40000)
  have v: "calculateTrafficVolume test_runtime generator_zero 40000 = NaN"
    using g by (rule volume_nan) (simp_all add: generator_zero_fields)
  have u: "generateUserRequests test_runtime generator_zero NaN 0 = (Inr [], 0)"
    "generateBotRequests test_runtime generator_zero NaN 0 = (Inr [], 0)"
    by (simp_all add: generateUserRequests_def generateBotRequests_def generate_requests_def
        array_max_length_def)
  show ?thesis
    unfolding v using g u generator_zero_fields(2) by (simp only: simp_thms)
qed

subsection \<open>The rule engine of the firewall\<close>





text \<open>
  The sort is stable, as \<open>Array.prototype.sort\<close> is: rules of equal priority keep the
  order of the three maps.
\<close>

lemma getSortedRules_stable:
  "filter (\<lambda>rule. priority rule = p) (getSortedRules w) =
     filter (\<lambda>rule. priority rule = p)
       (map snd (managedRuleGroups w) @ map snd (customRules w) @ map snd (rateBasedRules w))"
  unfolding getSortedRules_def by (rule sort_key_stable)



lemmas waf_new_defs = AWSWAF_new_def BaseService_new_def service_generateId_def Let_def split_def
  base_service.defs awswaf.defs empty_waf_config_def or_str_def or_num_def or_flag_def
  nonempty_str_def initial_service_metrics_def generateWebAclId_def generateWebAclArn_def
  initializeManagedRules_def

lemma waf_no_managed_rules:
  "managedRuleGroups waf_no_managed = []" "customRules waf_no_managed = []"
  "rateBasedRules waf_no_managed = []" "defaultAction waf_no_managed = ''ALLOW''"
  by (simp_all add: waf_no_managed_def waf_new_defs)



lemma path_request_admin: "path request_admin = ''/admin''"
  by (simp add: request_admin_def)



subsection \<open>Ticks after the game is over\<close>

lemma executeTick_over:
  "gameOver (gs_metrics (gameState w)) \<Longrightarrow> executeTick rt n w k = (pause w, k)"
  by (simp add: executeTick_def)

lemma pause_keeps:
  "gs_metrics (gameState (pause w)) = gs_metrics (gameState w)"
  "services (pause w) = services w"
  "tick (gameState (pause w)) = tick (gameState w)"
  by (simp_all add: pause_def)

lemma executeTicks_over:
  "gameOver (gs_metrics (gameState w)) \<Longrightarrow>
   gs_metrics (gameState (fst (executeTicks rt ns w k))) = gs_metrics (gameState w)
   \<and> services (fst (executeTicks rt ns w k)) = services w
   \<and> tick (gameState (fst (executeTicks rt ns w k))) = tick (gameState w)
   \<and> snd (executeTicks rt ns w k) = k"
proof (induction ns arbitrary: w)
  case Nil
  show ?case by simp
next
  case (Cons n ns)
  have over: "gameOver (gs_metrics (gameState (pause w)))"
    using Cons.prems by (simp add: pause_keeps)
  show ?case
    using Cons.IH [OF over] Cons.prems by (simp add: executeTick_over pause_keeps)
qed

lemma tick_generateTraffic:
  "tick (gameState (fst (snd (generateTraffic rt t w k)))) = tick (gameState w)"
  by (simp add: generateTraffic_def updateTrafficHistory_def Let_def split_def split: sum.splits)

lemma tick_updateMetrics:
  "tick (GameState_updateMetrics rt get tr gs) = tick gs"
  by (simp add: GameState_updateMetrics_def Let_def)

lemma tick_registry_processRequests:
  "tick (gameState (fst (snd (registry_processRequests rt requests w k)))) = tick (gameState w)"
  by (simp add: registry_processRequests_def Let_def split_def tick_updateMetrics)

lemma tick_emit:
  "tick (gameState (fst (emit rt (TICK_START t) w k))) = tick (gameState w)"
  "tick (gameState (fst (emit rt (TRAFFIC_GENERATED t) w k))) = tick (gameState w)"
  "tick (gameState (fst (emit rt (REQUESTS_PROCESSED t rs) w k))) = tick (gameState w)"
  "tick (gameState (fst (emit rt (METRICS_UPDATED t) w k))) = tick (gameState w)"
  "tick (gameState (fst (emit rt (UI_UPDATE t) w k))) = tick (gameState w)"
  "tick (gameState (fst (emit rt (GAME_OVER reason) w k))) = tick (gameState w)"
  by (simp_all add: emit_def Let_def split_def tick_generateTraffic
      tick_registry_processRequests pause_def)

lemma executeTick_running:
  "\<not> gameOver (gs_metrics (gameState w)) \<Longrightarrow>
   tick (gameState (fst (executeTick rt n w k))) = n"
  by (simp add: executeTick_def Let_def split_def tick_emit)

lemma clock_fire_over:
  "gameOver (gs_metrics (gameState w)) \<Longrightarrow>
   clock_fire rt w k = (pause (w\<lparr>game_clock := (game_clock w)\<lparr>tickCount := tickCount (game_clock w) + 1\<rparr>\<rparr>), k)"
  by (simp add: clock_fire_def Let_def executeTick_over)

text \<open>
  Claim C7. Once the game-over flag is set, a call of \<open>executeTick\<close> only pauses
  the loop: it leaves the metrics, every service instance of the registry and the tick
  counter of the game state as they are, and so does any further run of such calls, and
  so does a firing of the clock's timer.
\<close>

theorem C7_tick_after_game_over:
  assumes "gameOver (gs_metrics (gameState w))"
  shows "executeTick rt n w k = (pause w, k)
    \<and> gs_metrics (gameState (fst (executeTick rt n w k))) = gs_metrics (gameState w)
    \<and> services (fst (executeTick rt n w k)) = services w
    \<and> tick (gameState (fst (executeTick rt n w k))) = tick (gameState w)
    \<and> gs_metrics (gameState (fst (executeTicks rt ns w k))) = gs_metrics (gameState w)
    \<and> services (fst (executeTicks rt ns w k)) = services w
    \<and> tick (gameState (fst (executeTicks rt ns w k))) = tick (gameState w)
    \<and> gs_metrics (gameState (fst (clock_fire rt w k))) = gs_metrics (gameState w)
    \<and> services (fst (clock_fire rt w k)) = services w
    \<and> tick (gameState (fst (clock_fire rt w k))) = tick (gameState w)"
  using assms executeTicks_over [OF assms, of rt ns k]
  by (simp add: executeTick_over clock_fire_over pause_keeps)

text \<open>
  Two more ticks on a game that ended at tick 41; the same tick on a new game sets the
  counter.
\<close>

theorem C7_witness:
  "gameOver (gs_metrics (gameState world_over))
   \<and> tick (gameState world_over) = 41
   \<and> tick (gameState (fst (executeTicks test_runtime [42, 43] world_over 0))) = 41
   \<and> gs_metrics (gameState (fst (executeTick test_runtime 42 world_over 0)))
       = gs_metrics (gameState world_over)
   \<and> tick (gameState (fst (executeTick test_runtime 42 (GameLoop_new test_runtime) 0))) = 42"
proof -
  have o: "gameOver (gs_metrics (gameState world_over))"
    by (simp add: world_over_def)
  have t: "tick (gameState world_over) = 41"
    by (simp add: world_over_def)
  have r: "tick (gameState (fst (executeTick test_runtime 42 (GameLoop_new test_runtime) 0))) = 42"
    by (rule executeTick_running) (simp add: GameLoop_new_def GameState_new_def initial_metrics_def)
  show ?thesis
    using C7_tick_after_game_over [OF o, of test_runtime 42 0 "[42, 43]"] o t r
    by (simp del: executeTicks.simps add: pause_keeps)
qed

subsection \<open>Deploying an invalid instance\<close>

lemma BaseService_validate_complete:
  "(capacity s \<le> 0 \<longrightarrow> ''Capacity must be greater than 0'' \<in> set (BaseService_validate rt s))
   \<and> (provider s \<notin> {''aws'', ''gcp'', ''azure''} \<longrightarrow>
        ''Invalid provider - must be aws, gcp, or azure'' \<in> set (BaseService_validate rt s))
   \<and> (baseCost s < 0 \<longrightarrow> ''Base cost cannot be negative'' \<in> set (BaseService_validate rt s))"
  by (simp add: BaseService_validate_def)

lemma service_validate_base:
  "set (BaseService_validate rt s) \<subseteq> set (AWSCompute_validate rt s)"
  "set (BaseService_validate rt w) \<subseteq> set (AWSWAF_validate rt w)"
  by (simp_all add: AWSCompute_validate_def AWSWAF_validate_def)

lemma service_validate_complete:
  "(service_capacity svc \<le> 0 \<longrightarrow> ''Capacity must be greater than 0'' \<in> set (service_validate rt svc))
   \<and> (service_provider svc \<notin> {''aws'', ''gcp'', ''azure''} \<longrightarrow>
        ''Invalid provider - must be aws, gcp, or azure'' \<in> set (service_validate rt svc))
   \<and> (service_baseCost svc < 0 \<longrightarrow> ''Base cost cannot be negative'' \<in> set (service_validate rt svc))"
proof (cases svc)
  case (BaseSvc s)
  then show ?thesis using BaseService_validate_complete [of s rt] by simp
next
  case (EC2 s)
  then show ?thesis
    using BaseService_validate_complete [of s rt] service_validate_base(1) [of rt s] by auto
next
  case (WAF s)
  then show ?thesis
    using BaseService_validate_complete [of s rt] service_validate_base(2) [of rt s] by auto
qed

lemma spot_and_reserved:
  "spotInstance s \<and> reservedInstance s \<Longrightarrow>
   ''Instance cannot be both spot and reserved'' \<in> set (AWSCompute_validate rt s)"
  by (simp add: AWSCompute_validate_def)

lemma deploy_rejected:
  "service_validate rt svc \<noteq> [] \<Longrightarrow>
   deployService rt svc w = (False, w\<lparr>console_errors := console_errors w @ [service_validate rt svc]\<rparr>)"
  by (simp add: deployService_def Let_def)

text \<open>
  Claim C8. \<open>validate\<close> reports every violated rule, not only the first: a capacity
  of at most 0, a provider outside aws, gcp and azure, a negative base cost, and a compute
  instance that is both spot and reserved each put their message into the list. When the
  list is not empty, \<open>deployService\<close> returns \<open>false\<close>, reports the whole list, and
  leaves the registry's services and the game state unchanged; each of the four
  violations alone makes the list non-empty.
\<close>

theorem C8_deploy_rejects_invalid:
  "(service_capacity svc \<le> 0 \<longrightarrow> ''Capacity must be greater than 0'' \<in> set (service_validate rt svc))
   \<and> (service_provider svc \<notin> {''aws'', ''gcp'', ''azure''} \<longrightarrow>
        ''Invalid provider - must be aws, gcp, or azure'' \<in> set (service_validate rt svc))
   \<and> (service_baseCost svc < 0 \<longrightarrow> ''Base cost cannot be negative'' \<in> set (service_validate rt svc))
   \<and> (\<forall>s. svc = EC2 s \<and> spotInstance s \<and> reservedInstance s \<longrightarrow>
        ''Instance cannot be both spot and reserved'' \<in> set (service_validate rt svc))
   \<and> (service_capacity svc \<le> 0 \<or> service_provider svc \<notin> {''aws'', ''gcp'', ''azure''}
        \<or> service_baseCost svc < 0 \<or> (\<exists>s. svc = EC2 s \<and> spotInstance s \<and> reservedInstance s)
        \<or> service_validate rt svc \<noteq> [] \<longrightarrow>
        fst (deployService rt svc w) = False
        \<and> services (snd (deployService rt svc w)) = services w
        \<and> gameState (snd (deployService rt svc w)) = gameState w
        \<and> console_errors (snd (deployService rt svc w))
            = console_errors w @ [service_validate rt svc])"
proof -
  note c = service_validate_complete [of svc rt]
  have c4: "''Instance cannot be both spot and reserved'' \<in> set (service_validate rt svc)"
    if "svc = EC2 s \<and> spotInstance s \<and> reservedInstance s" for s
    using that spot_and_reserved [of s rt] by simp
  have ne: "service_validate rt svc \<noteq> []" if "x \<in> set (service_validate rt svc)" for x
    using that by (cases "service_validate rt svc") simp_all
  have v: "service_validate rt svc \<noteq> []"
    if "service_capacity svc \<le> 0 \<or> service_provider svc \<notin> {''aws'', ''gcp'', ''azure''}
        \<or> service_baseCost svc < 0 \<or> (\<exists>s. svc = EC2 s \<and> spotInstance s \<and> reservedInstance s)
        \<or> service_validate rt svc \<noteq> []"
    using that c c4 ne by blast
  have d: "fst (deployService rt svc w) = False
        \<and> services (snd (deployService rt svc w)) = services w
        \<and> gameState (snd (deployService rt svc w)) = gameState w
        \<and> console_errors (snd (deployService rt svc w))
            = console_errors w @ [service_validate rt svc]"
    if "service_validate rt svc \<noteq> []"
    by (simp add: deploy_rejected [OF that])
  show ?thesis
    using c c4 v d by blast
qed

lemma bad_compute_fields:
  "capacity bad_compute = - 5" "provider bad_compute = ''ibm''" "baseCost bad_compute = - 1"
  "spotInstance bad_compute" "reservedInstance bad_compute"
  by (simp_all add: bad_compute_def AWSCompute_new_def BaseService_new_def service_generateId_def
      Let_def split_def base_service.defs awscompute.defs empty_compute_config_def or_flag_def)

text \<open>An instance with all four violations: four messages, nothing deployed.\<close>

theorem C8_witness:
  "service_capacity (EC2 bad_compute) \<le> 0
   \<and> service_provider (EC2 bad_compute) \<notin> {''aws'', ''gcp'', ''azure''}
   \<and> service_baseCost (EC2 bad_compute) < 0
   \<and> spotInstance bad_compute \<and> reservedInstance bad_compute
   \<and> ''Capacity must be greater than 0'' \<in> set (service_validate test_runtime (EC2 bad_compute))
   \<and> ''Invalid provider - must be aws, gcp, or azure'' \<in> set (service_validate test_runtime (EC2 bad_compute))
   \<and> ''Base cost cannot be negative'' \<in> set (service_validate test_runtime (EC2 bad_compute))
   \<and> ''Instance cannot be both spot and reserved'' \<in> set (service_validate test_runtime (EC2 bad_compute))
   \<and> fst (deployService test_runtime (EC2 bad_compute) (GameLoop_new test_runtime)) = False
   \<and> services (snd (deployService test_runtime (EC2 bad_compute) (GameLoop_new test_runtime))) = []
   \<and> gameState (snd (deployService test_runtime (EC2 bad_compute) (GameLoop_new test_runtime))) = GameState_new"
proof -
  have h: "service_capacity (EC2 bad_compute) \<le> 0"
    "service_provider (EC2 bad_compute) \<notin> {''aws'', ''gcp'', ''azure''}"
    "service_baseCost (EC2 bad_compute) < 0"
    "spotInstance bad_compute" "reservedInstance bad_compute"
    by (simp_all add: bad_compute_fields)
  have g: "services (GameLoop_new test_runtime) = []" "gameState (GameLoop_new test_runtime) = GameState_new"
    by (simp_all add: GameLoop_new_def)
  have m: "''Capacity must be greater than 0'' \<in> set (service_validate test_runtime (EC2 bad_compute))"
    using C8_deploy_rejects_invalid [of "EC2 bad_compute" test_runtime "GameLoop_new test_runtime"] h by blast
  then have ne: "service_validate test_runtime (EC2 bad_compute) \<noteq> []"
    by auto
  show ?thesis
    using C8_deploy_rejects_invalid [of "EC2 bad_compute" test_runtime "GameLoop_new test_runtime"] h g ne
    by (simp del: service_validate.simps)
qed

subsection \<open>Load and health of an instance\<close>

lemmas compute_new_defs = AWSCompute_new_def BaseService_new_def service_generateId_def Let_def
  split_def base_service.defs awscompute.defs empty_compute_config_def or_str_def or_num_def
  or_flag_def opt_chain_def nonempty_str_def nonzero_num_def parseInstanceFamily_def
  startsWith_def initial_service_metrics_def

lemma compute_500_fields:
  "capacity (fst (AWSCompute_new rt compute_config_500 k)) = 500"
  "isBurstable (fst (AWSCompute_new rt compute_config_500 k))"
  "cc_current (cpuCredits (fst (AWSCompute_new rt compute_config_500 k))) = 30"
  "cc_baseline (cpuCredits (fst (AWSCompute_new rt compute_config_500 k))) = 20"
  "cc_maximum (cpuCredits (fst (AWSCompute_new rt compute_config_500 k))) = 144"
  "cc_earnRate (cpuCredits (fst (AWSCompute_new rt compute_config_500 k))) = fl rt 0.2"
  "\<not> spotInstance (fst (AWSCompute_new rt compute_config_500 k))"
  "\<not> as_enabled (autoScaling (fst (AWSCompute_new rt compute_config_500 k)))"
  "failureThreshold (fst (AWSCompute_new rt compute_config_500 k)) = fl rt 1.3"
  "degradationThreshold (fst (AWSCompute_new rt compute_config_500 k)) = fl rt 0.7"
  "health (fst (AWSCompute_new rt compute_config_500 k)) = healthy"
  by (simp_all add: compute_new_defs compute_config_500_def)

lemma compute_m5_fields:
  "capacity (fst (AWSCompute_new rt compute_config_m5 k)) = 500"
  "\<not> isBurstable (fst (AWSCompute_new rt compute_config_m5 k))"
  "\<not> spotInstance (fst (AWSCompute_new rt compute_config_m5 k))"
  "\<not> as_enabled (autoScaling (fst (AWSCompute_new rt compute_config_m5 k)))"
  "failureThreshold (fst (AWSCompute_new rt compute_config_m5 k)) = fl rt 1.3"
  "degradationThreshold (fst (AWSCompute_new rt compute_config_m5 k)) = fl rt 0.7"
  by (simp_all add: compute_new_defs compute_config_m5_def)

lemma updateCpuCredits_keeps [simp]:
  "spotInstance (updateCpuCredits rt l s) = spotInstance s"
  "interruptionRisk (updateCpuCredits rt l s) = interruptionRisk s"
  "autoScaling (updateCpuCredits rt l s) = autoScaling s"
  "isBurstable (updateCpuCredits rt l s) = isBurstable s"
  "failureThreshold (updateCpuCredits rt l s) = failureThreshold s"
  "degradationThreshold (updateCpuCredits rt l s) = degradationThreshold s"
  "capacity (updateCpuCredits rt l s) = capacity s"
  "currentLoad (updateCpuCredits rt l s) = currentLoad s"
  "currentCpuUtilization (updateCpuCredits rt l s) = currentCpuUtilization s"
  "health (updateCpuCredits rt l s) = health s"
  by (simp_all add: updateCpuCredits_def Let_def)

lemma AWSCompute_updateHealth_keeps [simp]:
  "spotInstance (AWSCompute_updateHealth rt l s) = spotInstance s"
  "interruptionRisk (AWSCompute_updateHealth rt l s) = interruptionRisk s"
  "autoScaling (AWSCompute_updateHealth rt l s) = autoScaling s"
  "isBurstable (AWSCompute_updateHealth rt l s) = isBurstable s"
  "failureThreshold (AWSCompute_updateHealth rt l s) = failureThreshold s"
  "degradationThreshold (AWSCompute_updateHealth rt l s) = degradationThreshold s"
  "capacity (AWSCompute_updateHealth rt l s) = capacity s"
  "currentLoad (AWSCompute_updateHealth rt l s) = currentLoad s"
  "currentCpuUtilization (AWSCompute_updateHealth rt l s) = currentCpuUtilization s"
  "cpuCredits (AWSCompute_updateHealth rt l s) = cpuCredits s"
  by (simp_all add: AWSCompute_updateHealth_def BaseService_updateHealth_def Let_def)

lemma evaluateAutoScaling_keeps [simp]:
  "health (fst (evaluateAutoScaling rt s k)) = health s"
  "currentLoad (fst (evaluateAutoScaling rt s k)) = currentLoad s"
  "cpuCredits (fst (evaluateAutoScaling rt s k)) = cpuCredits s"
  "isBurstable (fst (evaluateAutoScaling rt s k)) = isBurstable s"
  "spotInstance (fst (evaluateAutoScaling rt s k)) = spotInstance s"
  "interruptionRisk (fst (evaluateAutoScaling rt s k)) = interruptionRisk s"
  "failureThreshold (fst (evaluateAutoScaling rt s k)) = failureThreshold s"
  "degradationThreshold (fst (evaluateAutoScaling rt s k)) = degradationThreshold s"
  by (simp_all add: evaluateAutoScaling_def scaleUp_def scaleDown_def Let_def)

lemma updateMetrics_keeps [simp]:
  "health (updateMetrics gc p d t s) = health s"
  "currentLoad (updateMetrics gc p d t s) = currentLoad s"
  "capacity (updateMetrics gc p d t s) = capacity s"
  "failureThreshold (updateMetrics gc p d t s) = failureThreshold s"
  "degradationThreshold (updateMetrics gc p d t s) = degradationThreshold s"
  by (simp_all add: updateMetrics_def Let_def)

lemma updateMetrics_keeps_compute [simp]:
  "cpuCredits (updateMetrics gc p d t s) = cpuCredits s"
  "isBurstable (updateMetrics gc p d t s) = isBurstable s"
  "spotInstance (updateMetrics gc p d t s) = spotInstance s"
  "interruptionRisk (updateMetrics gc p d t s) = interruptionRisk s"
  "autoScaling (updateMetrics gc p d t s) = autoScaling s"
  by (simp_all add: updateMetrics_def Let_def)

lemma AWSCompute_processRequests_eq:
  assumes "requests \<noteq> []" and "not_interrupted rt s k"
  shows "AWSCompute_processRequests rt requests s k =
     (let e = loop_entry rt requests s k;
          lp = AWSCompute_loop rt (fst e) (offered_load rt requests (capacity s)) requests
                 ([], [], 0, snd e)
      in (\<lparr> processed = fst lp, dropped = fst (snd lp), blocked = [] \<rparr>,
          updateMetrics AWSCompute_getCost (length (fst lp)) (length (fst (snd lp)))
            (fst (snd (snd lp))) (fst e),
          snd (snd (snd lp))))"
proof -
  let ?l = "fl rt (real (length requests) / capacity s)"
  let ?s1 = "updateCpuCredits rt ?l
               (s\<lparr>currentLoad := ?l, currentCpuUtilization := min 100 (fl rt (?l * 100))\<rparr>)"
  have ni: "\<not> (spotInstance ?s1 \<and> fst (checkSpotInterruption rt ?s1 k))"
    using assms(2) by (simp add: checkSpotInterruption_def not_interrupted_def split: if_splits)
  show ?thesis
    using assms(1) ni
    by (simp only: AWSCompute_processRequests_def loop_entry_def offered_load_def Let_def
          split_def if_False fst_conv snd_conv)
qed

lemma loop_entry_fields:
  "health (fst (loop_entry rt requests s k))
     = health (AWSCompute_updateHealth rt (offered_load rt requests (capacity s))
                 (updateCpuCredits rt (offered_load rt requests (capacity s)) s))"
  "cpuCredits (fst (loop_entry rt requests s k))
     = cpuCredits (updateCpuCredits rt (offered_load rt requests (capacity s)) s)"
  "currentLoad (fst (loop_entry rt requests s k)) = offered_load rt requests (capacity s)"
  "isBurstable (fst (loop_entry rt requests s k)) = isBurstable s"
  "spotInstance (fst (loop_entry rt requests s k)) = spotInstance s"
  "failureThreshold (fst (loop_entry rt requests s k)) = failureThreshold s"
  "degradationThreshold (fst (loop_entry rt requests s k)) = degradationThreshold s"
proof -
  let ?l = "offered_load rt requests (capacity s)"
  let ?s0 = "s\<lparr>currentLoad := ?l, currentCpuUtilization := min 100 (fl rt (?l * 100))\<rparr>"
  have c0: "cpuCredits (updateCpuCredits rt ?l ?s0) = cpuCredits (updateCpuCredits rt ?l s)"
    by (simp add: updateCpuCredits_def Let_def)
  have h0: "health (AWSCompute_updateHealth rt ?l (updateCpuCredits rt ?l ?s0))
          = health (AWSCompute_updateHealth rt ?l (updateCpuCredits rt ?l s))"
    using c0 by (simp add: AWSCompute_updateHealth_def BaseService_updateHealth_def Let_def)
  show "health (fst (loop_entry rt requests s k))
     = health (AWSCompute_updateHealth rt ?l (updateCpuCredits rt ?l s))"
    using h0 by (simp add: loop_entry_def Let_def)
  show "cpuCredits (fst (loop_entry rt requests s k)) = cpuCredits (updateCpuCredits rt ?l s)"
    using c0 by (simp add: loop_entry_def Let_def)
  show "currentLoad (fst (loop_entry rt requests s k)) = ?l"
    "isBurstable (fst (loop_entry rt requests s k)) = isBurstable s"
    "spotInstance (fst (loop_entry rt requests s k)) = spotInstance s"
    "failureThreshold (fst (loop_entry rt requests s k)) = failureThreshold s"
    "degradationThreshold (fst (loop_entry rt requests s k)) = degradationThreshold s"
    by (simp_all add: loop_entry_def Let_def)
qed


text \<open>What a tick leaves in the instance, when the batch is not empty and no spot interruption hits.\<close>

lemma after_tick:
  assumes "requests \<noteq> []" and "not_interrupted rt s k"
  shows "health (fst (snd (AWSCompute_processRequests rt requests s k)))
           = health (AWSCompute_updateHealth rt (offered_load rt requests (capacity s))
                 (updateCpuCredits rt (offered_load rt requests (capacity s)) s))"
    and "cpuCredits (fst (snd (AWSCompute_processRequests rt requests s k)))
           = cpuCredits (updateCpuCredits rt (offered_load rt requests (capacity s)) s)"
    and "currentLoad (fst (snd (AWSCompute_processRequests rt requests s k)))
           = offered_load rt requests (capacity s)"
    and "isBurstable (fst (snd (AWSCompute_processRequests rt requests s k))) = isBurstable s"
    and "spotInstance (fst (snd (AWSCompute_processRequests rt requests s k))) = spotInstance s"
    and "failureThreshold (fst (snd (AWSCompute_processRequests rt requests s k))) = failureThreshold s"
    and "degradationThreshold (fst (snd (AWSCompute_processRequests rt requests s k))) = degradationThreshold s"
  by (simp_all add: AWSCompute_processRequests_eq [OF assms] Let_def loop_entry_fields)


lemma inspectRequest_keeps [simp]:
  "health (fst (snd (inspectRequest rt r w k))) = health w"
  "currentLoad (fst (snd (inspectRequest rt r w k))) = currentLoad w"
  "failureThreshold (fst (snd (inspectRequest rt r w k))) = failureThreshold w"
  "degradationThreshold (fst (snd (inspectRequest rt r w k))) = degradationThreshold w"
  by (simp_all add: inspectRequest_def split_def Let_def)


lemma updateWAFMetrics_keeps [simp]:
  "health (updateWAFMetrics w) = health w"
  "currentLoad (updateWAFMetrics w) = currentLoad w"
  by (simp_all add: updateWAFMetrics_def Let_def)


lemma BaseService_updateHealth_keeps [simp]:
  "currentLoad (BaseService_updateHealth l s) = currentLoad s"
  "failureThreshold (BaseService_updateHealth l s) = failureThreshold s"
  "degradationThreshold (BaseService_updateHealth l s) = degradationThreshold s"
  by (simp_all add: BaseService_updateHealth_def)






lemma AWSCompute_updateHealth_degraded:
  "\<not> l > failureThreshold s \<Longrightarrow> l > degradationThreshold s \<Longrightarrow>
   health (AWSCompute_updateHealth rt l s) = degraded"
  by (auto simp add: AWSCompute_updateHealth_def Let_def BaseService_updateHealth_def)

lemma AWSCompute_updateHealth_failed:
  "l > failureThreshold s \<Longrightarrow> \<not> isBurstable s \<Longrightarrow> \<not> spotInstance s \<Longrightarrow>
   health (AWSCompute_updateHealth rt l s) = failed"
  by (auto simp add: AWSCompute_updateHealth_def Let_def BaseService_updateHealth_def)


lemma AWSCompute_loop_lucky:
  assumes "health s \<noteq> failed"
    and "\<forall>j. \<not> math_random rt j < fl rt (fl rt (l - failureThreshold s) / failureThreshold s)"
  shows "fst (AWSCompute_loop rt s l rs (ps, ds, tot, k)) = ps @ map (ec2_mark rt s l) rs
     \<and> fst (snd (AWSCompute_loop rt s l rs (ps, ds, tot, k))) = ds"
proof (induction rs arbitrary: ps tot k)
  case Nil
  show ?case by simp
next
  case (Cons r rs)
  have nd: "fst (shouldDropRequest rt s l k) = False"
    using assms by (simp add: shouldDropRequest_def)
  have step: "AWSCompute_loop rt s l (r # rs) (ps, ds, tot, k) =
      AWSCompute_loop rt s l rs (ps @ [ec2_mark rt s l r], ds,
        tot + real_of_int (calculateEC2Latency rt s l), snd (shouldDropRequest rt s l k))"
    using nd by (simp add: split_def Let_def ec2_mark_def)
  show ?case
    unfolding step
    using Cons.IH [of "ps @ [ec2_mark rt s l r]" "tot + real_of_int (calculateEC2Latency rt s l)"
                      "snd (shouldDropRequest rt s l k)"]
    by simp
qed

lemma AWSCompute_loop_below:
  assumes "health s \<noteq> failed" and "\<not> l > failureThreshold s"
  shows "fst (AWSCompute_loop rt s l rs (ps, ds, tot, k)) = ps @ map (ec2_mark rt s l) rs
     \<and> fst (snd (AWSCompute_loop rt s l rs (ps, ds, tot, k))) = ds"
proof (induction rs arbitrary: ps tot)
  case Nil
  show ?case by simp
next
  case (Cons r rs)
  have nd: "shouldDropRequest rt s l k = (False, k)"
    using assms by (simp add: shouldDropRequest_def)
  have step: "AWSCompute_loop rt s l (r # rs) (ps, ds, tot, k) =
      AWSCompute_loop rt s l rs (ps @ [ec2_mark rt s l r], ds,
        tot + real_of_int (calculateEC2Latency rt s l), k)"
    using nd by (simp add: Let_def ec2_mark_def)
  show ?case
    unfolding step
    using Cons.IH [of "ps @ [ec2_mark rt s l r]" "tot + real_of_int (calculateEC2Latency rt s l)"]
    by simp
qed

lemma AWSCompute_loop_failed:
  "health s = failed \<Longrightarrow>
   AWSCompute_loop rt s l rs (ps, ds, tot, k) = (ps, ds @ rs, tot, k)"
  by (induction rs arbitrary: ds) (simp_all add: shouldDropRequest_def)

lemma result_of_tick:
  assumes "requests \<noteq> []" and "not_interrupted rt s k"
  shows "processed (fst (AWSCompute_processRequests rt requests s k))
      = fst (AWSCompute_loop rt (fst (loop_entry rt requests s k))
               (offered_load rt requests (capacity s)) requests ([], [], 0, snd (loop_entry rt requests s k)))"
    and "dropped (fst (AWSCompute_processRequests rt requests s k))
      = fst (snd (AWSCompute_loop rt (fst (loop_entry rt requests s k))
               (offered_load rt requests (capacity s)) requests ([], [], 0, snd (loop_entry rt requests s k))))"
  by (simp_all add: AWSCompute_processRequests_eq [OF assms] Let_def)

lemma not_interrupted_no_spot: "\<not> spotInstance s \<Longrightarrow> not_interrupted rt s k"
  by (simp add: not_interrupted_def)

text \<open>
  The loads 1 and 1.4 against the thresholds 0.7 and 1.3, whatever the rounding of the
  quotients and of the two literals.
\<close>

lemma load_between_thresholds:
  "\<not> fl rt 1 > fl rt0 1.3" "fl rt 1 > fl rt0 0.7" "fl rt (7 / 5) > fl rt0 1.3"
  using fl_near [of 1 rt] fl_near [of "13 / 10" rt0] fl_near [of "7 / 10" rt0]
    fl_near [of "7 / 5" rt]
  by simp_all

text \<open>The default instance under 500 requests, and the non-burstable one under 700.\<close>

lemma default_500:
  assumes "length requests = 500"
  shows "health (fst (snd (AWSCompute_processRequests rt requests (fst (AWSCompute_new rt0 compute_config_500 k0)) k))) = degraded"
    and "dropped (fst (AWSCompute_processRequests rt requests (fst (AWSCompute_new rt0 compute_config_500 k0)) k)) = []"
    and "length (processed (fst (AWSCompute_processRequests rt requests (fst (AWSCompute_new rt0 compute_config_500 k0)) k))) = 500"
proof -
  let ?s = "fst (AWSCompute_new rt0 compute_config_500 k0)"
  have ne: "requests \<noteq> []" using assms by auto
  have ni: "not_interrupted rt ?s k"
    by (simp add: not_interrupted_no_spot compute_500_fields)
  have l: "offered_load rt requests (capacity ?s) = fl rt 1" "offered_load rt requests 500 = fl rt 1"
    using assms by (simp_all add: offered_load_def compute_500_fields)
  have h: "health (AWSCompute_updateHealth rt (fl rt 1) (updateCpuCredits rt (fl rt 1) ?s)) = degraded"
    by (rule AWSCompute_updateHealth_degraded)
       (simp_all add: compute_500_fields load_between_thresholds)
  let ?e = "fst (loop_entry rt requests ?s k)"
  have he: "health ?e = degraded" "failureThreshold ?e = fl rt0 1.3"
    using h by (simp_all add: loop_entry_fields l compute_500_fields)
  have lp: "fst (AWSCompute_loop rt ?e (fl rt 1) requests ([], [], 0, snd (loop_entry rt requests ?s k)))
        = [] @ map (ec2_mark rt ?e (fl rt 1)) requests
     \<and> fst (snd (AWSCompute_loop rt ?e (fl rt 1) requests ([], [], 0, snd (loop_entry rt requests ?s k)))) = []"
    by (rule AWSCompute_loop_below) (simp_all add: he load_between_thresholds)
  show "health (fst (snd (AWSCompute_processRequests rt requests ?s k))) = degraded"
    using h by (simp add: after_tick(1) [OF ne ni] l)
  show "dropped (fst (AWSCompute_processRequests rt requests ?s k)) = []"
    using lp by (simp add: result_of_tick [OF ne ni] l)
  show "length (processed (fst (AWSCompute_processRequests rt requests ?s k))) = 500"
    using lp assms by (simp add: result_of_tick [OF ne ni] l)
qed

lemma m5_700:
  assumes "length requests = 700"
  shows "health (fst (snd (AWSCompute_processRequests rt requests (fst (AWSCompute_new rt0 compute_config_m5 k0)) k))) = failed"
    and "dropped (fst (AWSCompute_processRequests rt requests (fst (AWSCompute_new rt0 compute_config_m5 k0)) k)) = requests"
    and "processed (fst (AWSCompute_processRequests rt requests (fst (AWSCompute_new rt0 compute_config_m5 k0)) k)) = []"
proof -
  let ?s = "fst (AWSCompute_new rt0 compute_config_m5 k0)"
  have ne: "requests \<noteq> []" using assms by auto
  have ni: "not_interrupted rt ?s k"
    by (simp add: not_interrupted_no_spot compute_m5_fields)
  have l: "offered_load rt requests (capacity ?s) = fl rt (7 / 5)"
    "offered_load rt requests 500 = fl rt (7 / 5)"
    using assms by (simp_all add: offered_load_def compute_m5_fields)
  have h: "health (AWSCompute_updateHealth rt (fl rt (7 / 5)) (updateCpuCredits rt (fl rt (7 / 5)) ?s)) = failed"
    by (rule AWSCompute_updateHealth_failed)
       (simp_all add: compute_m5_fields load_between_thresholds)
  let ?e = "fst (loop_entry rt requests ?s k)"
  have he: "health ?e = failed"
    using h by (simp add: loop_entry_fields l)
  show "health (fst (snd (AWSCompute_processRequests rt requests ?s k))) = failed"
    using h by (simp add: after_tick(1) [OF ne ni] l)
  show "dropped (fst (AWSCompute_processRequests rt requests ?s k)) = requests"
    by (simp add: result_of_tick [OF ne ni] l AWSCompute_loop_failed [OF he])
  show "processed (fst (AWSCompute_processRequests rt requests ?s k)) = []"
    by (simp add: result_of_tick [OF ne ni] l AWSCompute_loop_failed [OF he])
qed

text \<open>
  Claim C2, as the code has it. A compute instance of capacity 500 with every default,
  offered 500 requests in a tick (load 1.0, above the degradation threshold 0.7), ends
  \<open>degraded\<close>, drops nothing and processes all 500. Offered 700 requests (load 1.4,
  above the failure threshold 1.3), an instance of capacity 500 that is not burstable
  (type \<open>m5.large\<close>, every other default) ends \<open>failed\<close> and drops all 700.
\<close>

theorem C2_capacity_scenario:
  "(length requests = 500 \<longrightarrow>
      (let out = AWSCompute_processRequests rt requests (fst (AWSCompute_new rt0 compute_config_500 k0)) k
       in health (fst (snd out)) = degraded \<and> dropped (fst out) = []
          \<and> length (processed (fst out)) = 500))
   \<and> (length requests = 700 \<longrightarrow>
      (let out = AWSCompute_processRequests rt requests (fst (AWSCompute_new rt0 compute_config_m5 k0)) k
       in health (fst (snd out)) = failed \<and> dropped (fst out) = requests
          \<and> processed (fst out) = []))"
  by (simp add: Let_def default_500 m5_700)

lemma compute_default_fields:
  "capacity compute_default = 500"
  "isBurstable compute_default"
  "cc_current (cpuCredits compute_default) = 30"
  "cc_baseline (cpuCredits compute_default) = 20"
  "\<not> spotInstance compute_default"
  "\<not> as_enabled (autoScaling compute_default)"
  "failureThreshold compute_default = 1.3"
  "degradationThreshold compute_default = 0.7"
  by (simp_all add: compute_default_def compute_500_fields)

lemma test_runtime_random: "math_random test_runtime j = 1 / 2"
  by (simp add: test_runtime_def)

text \<open>Both scenarios on batches of 500 and 700 copies of a request.\<close>

theorem C2_witness:
  "length (replicate 500 request_admin) = 500
   \<and> health (fst (snd (AWSCompute_processRequests test_runtime (replicate 500 request_admin) compute_default 0))) = degraded
   \<and> dropped (fst (AWSCompute_processRequests test_runtime (replicate 500 request_admin) compute_default 0)) = []
   \<and> length (processed (fst (AWSCompute_processRequests test_runtime (replicate 500 request_admin) compute_default 0))) = 500
   \<and> length (replicate 700 request_admin) = 700
   \<and> health (fst (snd (AWSCompute_processRequests test_runtime (replicate 700 request_admin) compute_m5 0))) = failed
   \<and> dropped (fst (AWSCompute_processRequests test_runtime (replicate 700 request_admin) compute_m5 0))
       = replicate 700 request_admin
   \<and> processed (fst (AWSCompute_processRequests test_runtime (replicate 700 request_admin) compute_m5 0)) = []"
  using C2_capacity_scenario [of "replicate 500 request_admin" test_runtime test_runtime 0 0]
    C2_capacity_scenario [of "replicate 700 request_admin" test_runtime test_runtime 0 0]
  by (simp add: Let_def compute_default_def compute_m5_def)

text \<open>
  The default (burstable) instance under 700 requests: out of credits, it is reported
  \<open>degraded\<close>, and the requests are dropped at random (none with every draw at 0.5).
\<close>

lemma default_700:
  "health (fst (snd (AWSCompute_processRequests test_runtime (replicate 700 request_admin) compute_default 0))) = degraded"
  "dropped (fst (AWSCompute_processRequests test_runtime (replicate 700 request_admin) compute_default 0)) = []"
proof -
  let ?rs = "replicate 700 request_admin"
  have ne: "?rs \<noteq> []" by simp
  have ni: "not_interrupted test_runtime compute_default 0"
    by (simp add: not_interrupted_no_spot compute_default_fields)
  have l: "offered_load test_runtime ?rs (capacity compute_default) = 7 / 5" "offered_load test_runtime ?rs 500 = 7 / 5"
    by (simp_all add: offered_load_def compute_default_fields)
  have h: "health (AWSCompute_updateHealth test_runtime (7 / 5)
                     (updateCpuCredits test_runtime (7 / 5) compute_default)) = degraded"
    by (simp add: AWSCompute_updateHealth_def BaseService_updateHealth_def updateCpuCredits_def
        Let_def compute_default_fields)
  let ?e = "fst (loop_entry test_runtime ?rs compute_default 0)"
  have he: "health ?e \<noteq> failed" "failureThreshold ?e = 1.3"
    using h by (simp_all add: loop_entry_fields l compute_default_fields)
  have lucky: "\<forall>j. \<not> math_random test_runtime j
      < fl test_runtime (fl test_runtime (7 / 5 - failureThreshold ?e) / failureThreshold ?e)"
    unfolding he(2) test_runtime_random by simp
  show "health (fst (snd (AWSCompute_processRequests test_runtime ?rs compute_default 0))) = degraded"
    using h by (simp add: after_tick(1) [OF ne ni] l)
  show "dropped (fst (AWSCompute_processRequests test_runtime ?rs compute_default 0)) = []"
    using AWSCompute_loop_lucky [OF he(1) lucky, of ?rs "[]" "[]" 0
        "snd (loop_entry test_runtime ?rs compute_default 0)"]
    by (simp add: result_of_tick [OF ne ni] l)
qed

text \<open>
  The claim as stated fails: after 500 requests the default instance is not
  \<open>healthy\<close>, and after 700 it is not \<open>failed\<close> and has not dropped the batch.
\<close>

theorem C2_counterexample:
  "health (fst (snd (AWSCompute_processRequests test_runtime (replicate 500 request_admin) compute_default 0)))
     \<noteq> healthy
   \<and> health (fst (snd (AWSCompute_processRequests test_runtime (replicate 700 request_admin) compute_default 0)))
     \<noteq> failed
   \<and> dropped (fst (AWSCompute_processRequests test_runtime (replicate 700 request_admin) compute_default 0)) = []"
proof -
  have "health (fst (snd (AWSCompute_processRequests test_runtime (replicate 500 request_admin) compute_default 0)))
      = degraded"
    unfolding compute_default_def by (rule default_500(1)) simp
  then show ?thesis
    by (simp add: default_700)
qed












subsection \<open>What the registry counts\<close>

lemma waf_no_managed_base:
  "capacity waf_no_managed = 25000" "failureThreshold waf_no_managed = 2.5"
  "degradationThreshold waf_no_managed = 0.95" "health waf_no_managed = healthy"
  "svc_id waf_no_managed = ''0-''" "svc_name waf_no_managed = ''AWS-WAF''"
  "provider waf_no_managed = ''aws''" "baseCost waf_no_managed = 0.6"
  "scope waf_no_managed = ''CLOUDFRONT''" "samplingRate waf_no_managed = 100"
  "inspect_body waf_no_managed" "\<not> log_enabled (logging waf_no_managed)"
  "latencyBase waf_no_managed = 2" "latencyMultiplier waf_no_managed = 0.4"
  by (simp_all add: waf_no_managed_def waf_new_defs test_runtime_def substr_def fl_def
      rounding_exact)

lemma addCustomRule_keeps [simp]:
  "capacity (addCustomRule rc w) = capacity w"
  "failureThreshold (addCustomRule rc w) = failureThreshold w"
  "degradationThreshold (addCustomRule rc w) = degradationThreshold w"
  "health (addCustomRule rc w) = health w"
  "svc_id (addCustomRule rc w) = svc_id w"
  "svc_name (addCustomRule rc w) = svc_name w"
  "provider (addCustomRule rc w) = provider w"
  "baseCost (addCustomRule rc w) = baseCost w"
  "scope (addCustomRule rc w) = scope w"
  "samplingRate (addCustomRule rc w) = samplingRate w"
  "defaultAction (addCustomRule rc w) = defaultAction w"
  "managedRuleGroups (addCustomRule rc w) = managedRuleGroups w"
  "rateBasedRules (addCustomRule rc w) = rateBasedRules w"
  "inspect_body (addCustomRule rc w) = inspect_body w"
  "logging (addCustomRule rc w) = logging w"
  "latencyBase (addCustomRule rc w) = latencyBase w"
  "latencyMultiplier (addCustomRule rc w) = latencyMultiplier w"
  by (simp_all add: addCustomRule_def Let_def)

lemma waf_block_admin_rules:
  "getSortedRules waf_block_admin = [rule_block_admin_1]"
  by (simp add: getSortedRules_def waf_block_admin_def addCustomRule_def Let_def
      waf_no_managed_rules show_nat.simps rule_block_admin_1_def)

lemma waf_block_admin_base:
  "capacity waf_block_admin = 25000" "failureThreshold waf_block_admin = 2.5"
  "degradationThreshold waf_block_admin = 0.95" "health waf_block_admin = healthy"
  "svc_id waf_block_admin = ''0-''" "svc_name waf_block_admin = ''AWS-WAF''"
  "provider waf_block_admin = ''aws''" "baseCost waf_block_admin = 0.6"
  "scope waf_block_admin = ''CLOUDFRONT''" "samplingRate waf_block_admin = 100"
  "inspect_body waf_block_admin" "\<not> log_enabled (logging waf_block_admin)"
  "latencyBase waf_block_admin = 2" "latencyMultiplier waf_block_admin = 0.4"
  "defaultAction waf_block_admin = ''ALLOW''"
  by (simp_all add: waf_block_admin_def waf_no_managed_base waf_no_managed_rules)

lemma waf_block_admin_validate: "AWSWAF_validate test_runtime waf_block_admin = []"
  by (simp add: AWSWAF_validate_def BaseService_validate_def waf_block_admin_rules
      waf_block_admin_base test_runtime_def latin1_trim_def is_space_def rule_block_admin_1_def)

lemma world_waf_eq:
  "fst (deployService test_runtime (WAF waf_block_admin) (GameLoop_new test_runtime)) = True"
  "services world_waf = [(''0-'', WAF waf_block_admin)]"
  "gs_services (gameState world_waf) = [''0-'']"
  "gs_metrics (gameState world_waf) = initial_metrics"
  by (simp_all add: world_waf_def deployService_def waf_block_admin_validate Let_def
      waf_block_admin_base GameLoop_new_def addService_def GameState_new_def)

lemma inspect_admin:
  "fst (inspectRequest test_runtime request_admin w k) =
     \<lparr> ir_action = ''BLOCK'',
       ir_matchedRules = [\<lparr> ruleId = ''custom-1'', ruleName = ''block-admin'', mr_action = ''BLOCK'' \<rparr>],
       terminatingRule = Some ''custom-1'' \<rparr>"
  if "getSortedRules w = [rule_block_admin_1]"
  using that
  by (simp add: inspectRequest_def split_def Let_def evaluateRule_def evaluateCustomRule_def
      evaluateCondition_def extractFieldValue_def path_request_admin uri_condition_def
      rule_block_admin_1_def terminating_actions_def)

lemma getSortedRules_cong:
  "managedRuleGroups w' = managedRuleGroups w \<Longrightarrow> customRules w' = customRules w \<Longrightarrow>
   rateBasedRules w' = rateBasedRules w \<Longrightarrow> getSortedRules w' = getSortedRules w"
  by (simp add: getSortedRules_def)

lemma shouldDropRequest_calm:
  "health s \<noteq> failed \<Longrightarrow> \<not> l > failureThreshold s \<Longrightarrow> shouldDropRequest rt s l k = (False, k)"
  by (simp add: shouldDropRequest_def)

lemma waf_blocks_admin:
  "processed (fst (AWSWAF_processRequests test_runtime [request_admin] waf_block_admin k)) = []"
  "dropped (fst (AWSWAF_processRequests test_runtime [request_admin] waf_block_admin k)) = []"
  "length (blocked (fst (AWSWAF_processRequests test_runtime [request_admin] waf_block_admin k))) = 1"
proof -
  let ?l = "fl test_runtime (real (length [request_admin]) / capacity waf_block_admin)"
  let ?w1 = "BaseService_updateHealth ?l (waf_block_admin\<lparr>currentLoad := ?l\<rparr>)"
  have l: "?l = 1 / 25000"
    by (simp add: waf_block_admin_base)
  have h: "health ?w1 \<noteq> failed" "\<not> ?l > failureThreshold ?w1"
    by (simp_all add: BaseService_updateHealth_def waf_block_admin_base)
  have nd: "shouldDropRequest test_runtime ?w1 ?l k = (False, k)"
    using h by (rule shouldDropRequest_calm)
  have rules: "getSortedRules ?w1 = [rule_block_admin_1]"
    using getSortedRules_cong [of ?w1 waf_block_admin]
    by (simp add: BaseService_updateHealth_def waf_block_admin_rules)
  note ins = inspect_admin [OF rules, of k]
  have loop: "fst (AWSWAF_loop test_runtime ?l [request_admin] ([], [], [], 0) ?w1 k) =
      ([], [], [request_admin\<lparr> latency := latency request_admin
            + real_of_int (calculateWAFLatency test_runtime (fst (snd (inspectRequest test_runtime request_admin ?w1 k))) ?l
                 (fst (inspectRequest test_runtime request_admin ?w1 k))),
          req_provider := Some ''aws'', req_service := Some ''waf'', wafAction := Some ''BLOCK'',
          matchedRules := Some [\<lparr> ruleId = ''custom-1'', ruleName = ''block-admin'', mr_action = ''BLOCK'' \<rparr>] \<rparr>],
       real_of_int (calculateWAFLatency test_runtime (fst (snd (inspectRequest test_runtime request_admin ?w1 k))) ?l
                 (fst (inspectRequest test_runtime request_admin ?w1 k))))"
    by (simp only: AWSWAF_loop.simps nd Let_def split_def fst_conv snd_conv if_False ins
          handle_action_def prod.case inspection_result.simps)
       simp
  show "processed (fst (AWSWAF_processRequests test_runtime [request_admin] waf_block_admin k)) = []"
    "dropped (fst (AWSWAF_processRequests test_runtime [request_admin] waf_block_admin k)) = []"
    "length (blocked (fst (AWSWAF_processRequests test_runtime [request_admin] waf_block_admin k))) = 1"
    unfolding AWSWAF_processRequests_def Let_def split_def loop by simp_all
qed

lemma route_one: "routeRequests [(i, svc)] [r] = [(i, [r])]"
  by (simp add: routeRequests_def map_get_def)

lemma registry_counts_waf:
  "fst (registry_processRequests test_runtime [request_admin] world_waf 0)
     = \<lparr> n_processed = 0, n_dropped = 0, n_blocked = 0, totalLatency = 0 \<rparr>"
  by (simp add: registry_processRequests_def Let_def split_def world_waf_eq route_one
      map_get_def waf_blocks_admin)

text \<open>
  Claim C1, evaluated where it fails. A firewall that blocks \<open>/admin\<close> is deployed and
  one request for \<open>/admin\<close> is offered: the firewall returns it in its \<open>blocked\<close>
  list, and the registry reports \<open>processed = dropped = blocked = 0\<close> for the batch of 1.
\<close>

theorem C1_blocked_request_not_counted:
  "fst (deployService test_runtime (WAF waf_block_admin) (GameLoop_new test_runtime)) = True
   \<and> length (blocked (fst (AWSWAF_processRequests test_runtime [request_admin] waf_block_admin 0))) = 1
   \<and> fst (registry_processRequests test_runtime [request_admin] world_waf 0)
       = \<lparr> n_processed = 0, n_dropped = 0, n_blocked = 0, totalLatency = 0 \<rparr>
   \<and> n_processed (fst (registry_processRequests test_runtime [request_admin] world_waf 0))
       + n_dropped (fst (registry_processRequests test_runtime [request_admin] world_waf 0))
       + n_blocked (fst (registry_processRequests test_runtime [request_admin] world_waf 0))
       \<noteq> length [request_admin]"
  by (simp add: world_waf_eq(1) waf_blocks_admin registry_counts_waf)

text \<open>With no service deployed nothing is routed, and nothing is counted.\<close>

lemma registry_no_services:
  assumes "services w = []" and "requests \<noteq> []"
  shows "fst (registry_processRequests rt requests w k)
           = \<lparr> n_processed = 0, n_dropped = 0, n_blocked = 0, totalLatency = 0 \<rparr>"
    and "availability (gs_metrics (gameState (fst (snd (registry_processRequests rt requests w k)))))
           = availability (gs_metrics (gameState w))"
    and "requestsDropped (gs_metrics (gameState (fst (snd (registry_processRequests rt requests w k)))))
           = requestsDropped (gs_metrics (gameState w))"
  using assms
  by (simp_all add: registry_processRequests_def Let_def routeRequests_def
      GameState_updateMetrics_def checkGameOverConditions_def)

text \<open>
  Claim C5, evaluated where it fails. With no service deployed and one request offered,
  the registry reports \<open>dropped = 0\<close>, the dropped total of the game state stays 0 and
  the availability stays at its previous value 100.
\<close>

theorem C5_no_services_not_dropped:
  "services (GameLoop_new test_runtime) = []
   \<and> fst (registry_processRequests test_runtime [request_admin] (GameLoop_new test_runtime) 0)
       = \<lparr> n_processed = 0, n_dropped = 0, n_blocked = 0, totalLatency = 0 \<rparr>
   \<and> requestsDropped (gs_metrics (gameState
        (fst (snd (registry_processRequests test_runtime [request_admin] (GameLoop_new test_runtime) 0))))) = 0
   \<and> availability (gs_metrics (gameState
        (fst (snd (registry_processRequests test_runtime [request_admin] (GameLoop_new test_runtime) 0))))) = 100"
proof -
  have s: "services (GameLoop_new test_runtime) = []"
    by (simp add: GameLoop_new_def)
  have m: "availability (gs_metrics (gameState (GameLoop_new test_runtime))) = 100"
    "requestsDropped (gs_metrics (gameState (GameLoop_new test_runtime))) = 0"
    by (simp_all add: GameLoop_new_def GameState_new_def initial_metrics_def)
  show ?thesis
    using registry_no_services [OF s, of "[request_admin]" test_runtime 0] s m by simp
qed

end
